theory Spec2Isabelle
  imports Main "HOL-Library.Word"
begin

unbundle bit_operations_syntax

section \<open>Foreign-field variables and the field chip\<close>

text \<open>
  \<^verbatim>\<open>babybear.Variable\<close> and \<^verbatim>\<open>koalabear.Variable\<close>: a native circuit variable
  (\<^verbatim>\<open>Value frontend.Variable\<close>) with an upper bound on its magnitude
  (\<^verbatim>\<open>UpperBound *big.Int\<close>). The type of native variables is a parameter.
\<close>

record 'n Variable =
  Value :: 'n
  UpperBound :: int

text \<open>
  The packages \<^verbatim>\<open>babybear\<close> and \<^verbatim>\<open>koalabear\<close> that implement the field chip are not
  among the sources, so the Poseidon2 chips are modelled over the operations they call:
  the methods of \<^verbatim>\<open>fieldApi\<close>, the package constants \<^verbatim>\<open>Zero()\<close>, \<^verbatim>\<open>One()\<close> and
  \<^verbatim>\<open>NewFConst\<close> (whose decimal string argument is given as the integer it denotes), and
  the native multiplication \<^verbatim>\<open>api.Mul\<close> of the circuit builder.
\<close>

record 'n field_chip =
  AddF :: "'n Variable \<Rightarrow> 'n Variable \<Rightarrow> 'n Variable"
  MulF :: "'n Variable \<Rightarrow> 'n Variable \<Rightarrow> 'n Variable"
  MulFConst :: "'n Variable \<Rightarrow> int \<Rightarrow> 'n Variable"
  ReduceSlow :: "'n Variable \<Rightarrow> 'n Variable"
  ZeroF :: "'n Variable"
  OneF :: "'n Variable"
  NewFConst :: "int \<Rightarrow> 'n Variable"
  api_Mul :: "'n \<Rightarrow> 'n \<Rightarrow> 'n"

text \<open>The scalar field of BN254, over which the tests solve the circuits.\<close>

definition native_modulus :: int where
  "native_modulus =
     21888242871839275222246405745257275088548364400416034343698204186575808495617"

definition babybear_modulus :: int where
  "babybear_modulus = 2013265921"

definition koalabear_modulus :: int where
  "koalabear_modulus = 2130706433"

text \<open>
  Modelled from the spec: the field chip of the missing packages \<^verbatim>\<open>babybear\<close> and
  \<^verbatim>\<open>koalabear\<close>, for the prime \<open>p\<close>. Values are native field elements, integers below the
  native modulus. \<open>AddF\<close> adds values and bounds and never reduces; \<open>MulF\<close> and
  \<open>MulFConst\<close> multiply values and bounds; \<open>ReduceSlow\<close> returns the canonical
  representative modulo \<open>p\<close> with the bound reset to \<open>p - 1\<close>.
\<close>

definition value_chip :: "int \<Rightarrow> int field_chip" where
  "value_chip p =
    \<lparr>AddF = (\<lambda>a b. \<lparr>Value = (Value a + Value b) mod native_modulus,
                      UpperBound = UpperBound a + UpperBound b\<rparr>),
     MulF = (\<lambda>a b. \<lparr>Value = (Value a * Value b) mod native_modulus,
                      UpperBound = UpperBound a * UpperBound b\<rparr>),
     MulFConst = (\<lambda>a k. \<lparr>Value = (Value a * k) mod native_modulus,
                           UpperBound = UpperBound a * k\<rparr>),
     ReduceSlow = (\<lambda>a. \<lparr>Value = Value a mod p, UpperBound = p - 1\<rparr>),
     ZeroF = \<lparr>Value = 0, UpperBound = 0\<rparr>,
     OneF = \<lparr>Value = 1, UpperBound = 1\<rparr>,
     NewFConst = (\<lambda>k. \<lparr>Value = k, UpperBound = k\<rparr>),
     api_Mul = (\<lambda>a b. (a * b) mod native_modulus)\<rparr>"

text \<open>
  A second reading of the same operations keeps, instead of the number a variable holds,
  the operation that produced it: the circuit the chip builds, as a term.
\<close>

datatype wire =
    Arg nat
  | Lit int
  | ByAddF wire wire
  | ByMulF wire wire
  | ByMulFConst wire int
  | ByReduceSlow wire
  | ByMul wire wire

definition recording_chip :: "int \<Rightarrow> wire field_chip" where
  "recording_chip p =
    \<lparr>AddF = (\<lambda>a b. \<lparr>Value = ByAddF (Value a) (Value b),
                      UpperBound = UpperBound a + UpperBound b\<rparr>),
     MulF = (\<lambda>a b. \<lparr>Value = ByMulF (Value a) (Value b),
                      UpperBound = UpperBound a * UpperBound b\<rparr>),
     MulFConst = (\<lambda>a k. \<lparr>Value = ByMulFConst (Value a) k,
                           UpperBound = UpperBound a * k\<rparr>),
     ReduceSlow = (\<lambda>a. \<lparr>Value = ByReduceSlow (Value a), UpperBound = p - 1\<rparr>),
     ZeroF = \<lparr>Value = Lit 0, UpperBound = 0\<rparr>,
     OneF = \<lparr>Value = Lit 1, UpperBound = 1\<rparr>,
     NewFConst = (\<lambda>k. \<lparr>Value = Lit k, UpperBound = k\<rparr>),
     api_Mul = ByMul\<rparr>"

fun is_reduced :: "wire \<Rightarrow> bool" where
  "is_reduced (ByReduceSlow a) = True"
| "is_reduced a = False"

text \<open>
  Every squaring \<^verbatim>\<open>api.Mul(a, a)\<close> in the term has an operand that \<open>ReduceSlow\<close> returned.
\<close>

fun squarings_reduced :: "wire \<Rightarrow> bool" where
  "squarings_reduced (Arg i) = True"
| "squarings_reduced (Lit k) = True"
| "squarings_reduced (ByAddF a b) = (squarings_reduced a \<and> squarings_reduced b)"
| "squarings_reduced (ByMulF a b) = (squarings_reduced a \<and> squarings_reduced b)"
| "squarings_reduced (ByMulFConst a k) = squarings_reduced a"
| "squarings_reduced (ByReduceSlow a) = squarings_reduced a"
| "squarings_reduced (ByMul a b) =
     (if a = b then is_reduced a \<and> squarings_reduced a
      else squarings_reduced a \<and> squarings_reduced b)"

section \<open>The Poseidon2 permutation chips\<close>

text \<open>
  The two chips (\<^verbatim>\<open>poseidon2_babybear.go\<close>, \<^verbatim>\<open>poseidon2_koalabear.go\<close>) have the same
  text in \<^verbatim>\<open>addRc\<close>, \<^verbatim>\<open>mdsLightPermutation4x4\<close>, \<^verbatim>\<open>externalLinearLayer\<close> and
  \<^verbatim>\<open>matmulInternal\<close>, which are modelled once. The state is the array
  \<^verbatim>\<open>[16]Variable\<close>, a list of length 16; a loop \<^verbatim>\<open>for i := a; i < b; i++\<close> that
  writes the state in place is a \<open>fold\<close> over \<open>[a..<b]\<close> of list updates.
\<close>

definition WIDTH :: nat where
  "WIDTH = 16"

definition NumExternalRounds :: nat where
  "NumExternalRounds = 8"

definition babybearNumInternalRounds :: nat where
  "babybearNumInternalRounds = 13"

definition koalabearNumInternalRounds :: nat where
  "koalabearNumInternalRounds = 20"

definition addRc :: "'n field_chip \<Rightarrow> 'n Variable list \<Rightarrow> 'n Variable list \<Rightarrow> 'n Variable list" where
  "addRc f state rc = fold (\<lambda>i st. st[i := AddF f (st ! i) (rc ! i)]) [0..<WIDTH] state"

definition babybear_sboxP_product :: "'n field_chip \<Rightarrow> 'n Variable \<Rightarrow> 'n Variable" where
  "babybear_sboxP_product f input =
    (let zero = NewFConst f 0;
         inputCpy = AddF f input zero;
         inputCpy = ReduceSlow f inputCpy;
         inputValue = Value inputCpy;
         i2 = api_Mul f inputValue inputValue;
         i4 = api_Mul f i2 i2;
         i6 = api_Mul f i4 i2;
         i7 = api_Mul f i6 inputValue
     in \<lparr>Value = i7, UpperBound = 2013265921 ^ 7\<rparr>)"

text \<open>
  \<^verbatim>\<open>sboxP\<close> of the BabyBear chip: the product above, with the bound
  \<^verbatim>\<open>Exp(2013265921, 7, 0)\<close>, handed to \<^verbatim>\<open>ReduceSlow\<close>.
\<close>

definition babybear_sboxP :: "'n field_chip \<Rightarrow> 'n Variable \<Rightarrow> 'n Variable" where
  "babybear_sboxP f input = ReduceSlow f (babybear_sboxP_product f input)"

definition koalabear_sboxP_product :: "'n field_chip \<Rightarrow> 'n Variable \<Rightarrow> 'n Variable" where
  "koalabear_sboxP_product f input =
    (let zero = NewFConst f 0;
         inputCpy = AddF f input zero;
         inputCpy = ReduceSlow f inputCpy;
         inputValue = Value inputCpy;
         i2 = api_Mul f inputValue inputValue;
         i3 = api_Mul f i2 inputValue
     in \<lparr>Value = i3, UpperBound = 2130706433 ^ 3\<rparr>)"

definition koalabear_sboxP :: "'n field_chip \<Rightarrow> 'n Variable \<Rightarrow> 'n Variable" where
  "koalabear_sboxP f input = ReduceSlow f (koalabear_sboxP_product f input)"

text \<open>\<^verbatim>\<open>sbox\<close>, over the \<^verbatim>\<open>sboxP\<close> of the chip.\<close>

definition sbox :: "('n Variable \<Rightarrow> 'n Variable) \<Rightarrow> 'n Variable list \<Rightarrow> 'n Variable list" where
  "sbox sboxP state = fold (\<lambda>i st. st[i := sboxP (st ! i)]) [0..<WIDTH] state"

definition mdsLightPermutation4x4 :: "'n field_chip \<Rightarrow> 'n Variable list \<Rightarrow> 'n Variable list" where
  "mdsLightPermutation4x4 f state =
    (let t01 = AddF f (state ! 0) (state ! 1);
         t23 = AddF f (state ! 2) (state ! 3);
         t0123 = AddF f t01 t23;
         t01123 = AddF f t0123 (state ! 1);
         t01233 = AddF f t0123 (state ! 3);
         state = state[3 := AddF f t01233 (MulFConst f (state ! 0) 2)];
         state = state[1 := AddF f t01123 (MulFConst f (state ! 2) 2)];
         state = state[0 := AddF f t01123 t01];
         state = state[2 := AddF f t01233 t23]
     in state)"

text \<open>
  \<^verbatim>\<open>externalLinearLayer\<close>. The slice \<^verbatim>\<open>state[i : i+4]\<close> shares the array, so the mix
  of a block replaces lanes \<open>i\<close> to \<open>i + 3\<close>; the loops with step 4 run over the written
  out index lists.
\<close>

definition externalLinearLayer :: "'n field_chip \<Rightarrow> 'n Variable list \<Rightarrow> 'n Variable list" where
  "externalLinearLayer f state0 =
    (let state = fold (\<lambda>i st. take i st @ mdsLightPermutation4x4 f (take 4 (drop i st))
                                @ drop (i + 4) st) [0, 4, 8, 12] state0;
         sums = [state ! 0, state ! 1, state ! 2, state ! 3];
         sums = fold (\<lambda>i sums.
                  let sums = sums[0 := AddF f (sums ! 0) (state ! i)];
                      sums = sums[1 := AddF f (sums ! 1) (state ! (i + 1))];
                      sums = sums[2 := AddF f (sums ! 2) (state ! (i + 2))];
                      sums = sums[3 := AddF f (sums ! 3) (state ! (i + 3))]
                  in sums) [4, 8, 12] sums
     in fold (\<lambda>i st. st[i := AddF f (st ! i) (sums ! (i mod 4))]) [0..<WIDTH] state)"

definition matmulInternal :: "'n field_chip \<Rightarrow> 'n Variable list \<Rightarrow> 'n Variable list \<Rightarrow> 'n Variable list" where
  "matmulInternal f state matInternalDiagM1 =
    (let sum = fold (\<lambda>i sum. AddF f sum (state ! i)) [0..<WIDTH] (NewFConst f 0)
     in fold (\<lambda>i st.
          let st = st[i := MulF f (st ! i) (matInternalDiagM1 ! i)]
          in st[i := AddF f (st ! i) sum]) [0..<WIDTH] state)"

definition babybear_matInternalDiagM1 :: "int list" where
  "babybear_matInternalDiagM1 =
    [2013265919, 1, 2, 1006632961, 3, 4, 1006632960, 2013265918,
     2013265917, 2005401601, 1509949441, 1761607681, 2013265906, 7864320, 125829120, 15]"

definition koalabear_matInternalDiagM1 :: "int list" where
  "koalabear_matInternalDiagM1 =
    [2130706431, 1, 2, 1065353217, 3, 4, 1065353216, 2130706430,
     2130706429, 2122383361, 1864368129, 2130706306, 8323072, 266338304, 133169152, 127]"

definition babybear_diffusionPermuteMut :: "'n field_chip \<Rightarrow> 'n Variable list \<Rightarrow> 'n Variable list" where
  "babybear_diffusionPermuteMut f state =
     matmulInternal f state (map (NewFConst f) babybear_matInternalDiagM1)"

definition koalabear_diffusionPermuteMut :: "'n field_chip \<Rightarrow> 'n Variable list \<Rightarrow> 'n Variable list" where
  "koalabear_diffusionPermuteMut f state =
     matmulInternal f state (map (NewFConst f) koalabear_matInternalDiagM1)"

text \<open>
  \<^verbatim>\<open>PermuteMut\<close> of the two chips. The tables \<^verbatim>\<open>rc16\<close> and \<^verbatim>\<open>rc16_koalabear\<close> are
  not among the sources: the table is the parameter \<open>rc16\<close>, one row of 16 constants per
  round. The rows that the loops read are taken to be there; what is proved about the
  rounds of \<open>PermuteMut\<close> is stated for tables with enough rows of 16 constants.
\<close>

definition babybear_PermuteMut :: "'n field_chip \<Rightarrow> 'n Variable list list \<Rightarrow> 'n Variable list \<Rightarrow> 'n Variable list" where
  "babybear_PermuteMut f rc16 state0 =
    (let state = externalLinearLayer f state0;
         rounds = NumExternalRounds + babybearNumInternalRounds;
         roundsFBeginning = NumExternalRounds div 2;
         state = fold (\<lambda>r st.
                   let st = addRc f st (rc16 ! r);
                       st = sbox (babybear_sboxP f) st
                   in externalLinearLayer f st) [0..<roundsFBeginning] state;
         p_end = roundsFBeginning + babybearNumInternalRounds;
         state = fold (\<lambda>r st.
                   let st = st[0 := AddF f (st ! 0) (rc16 ! r ! 0)];
                       st = st[0 := babybear_sboxP f (st ! 0)]
                   in babybear_diffusionPermuteMut f st) [roundsFBeginning..<p_end] state
     in fold (\<lambda>r st.
          let st = addRc f st (rc16 ! r);
              st = sbox (babybear_sboxP f) st
          in externalLinearLayer f st) [p_end..<rounds] state)"

definition koalabear_PermuteMut :: "'n field_chip \<Rightarrow> 'n Variable list list \<Rightarrow> 'n Variable list \<Rightarrow> 'n Variable list" where
  "koalabear_PermuteMut f rc16_koalabear state0 =
    (let state = externalLinearLayer f state0;
         rounds = NumExternalRounds + koalabearNumInternalRounds;
         roundsFBeginning = NumExternalRounds div 2;
         state = fold (\<lambda>r st.
                   let st = addRc f st (rc16_koalabear ! r);
                       st = sbox (koalabear_sboxP f) st
                   in externalLinearLayer f st) [0..<roundsFBeginning] state;
         p_end = roundsFBeginning + koalabearNumInternalRounds;
         state = fold (\<lambda>r st.
                   let st = st[0 := AddF f (st ! 0) (rc16_koalabear ! r ! 0)];
                       st = st[0 := koalabear_sboxP f (st ! 0)]
                   in koalabear_diffusionPermuteMut f st) [roundsFBeginning..<p_end] state
     in fold (\<lambda>r st.
          let st = addRc f st (rc16_koalabear ! r);
              st = sbox (koalabear_sboxP f) st
          in externalLinearLayer f st) [p_end..<rounds] state)"

section \<open>Sponge mode\<close>

text \<open>
  The sponge of the BabyBear chip. The struct keeps the state and \<^verbatim>\<open>bufferCount\<close>, a Go
  \<^verbatim>\<open>int\<close> that starts at 0 and is only incremented or reset to 0, hence a natural number
  here. The field \<open>permutations\<close> is not in the source: it counts the calls of
  \<^verbatim>\<open>PermuteMut\<close> the chip has made. Indexing \<^verbatim>\<open>p.State[p.bufferCount]\<close> outside the 16
  lanes panics.
\<close>

datatype panic = IndexOutOfRange

record 'n Poseidon2BabyBearChip =
  State :: "'n Variable list"
  bufferCount :: nat
  permutations :: nat

definition NewBabyBearChip :: "'n field_chip \<Rightarrow> 'n Poseidon2BabyBearChip" where
  "NewBabyBearChip f =
    \<lparr>State = [ZeroF f, ZeroF f, ZeroF f, ZeroF f, ZeroF f, ZeroF f, ZeroF f, ZeroF f,
               ZeroF f, ZeroF f, ZeroF f, ZeroF f, ZeroF f, ZeroF f, ZeroF f, ZeroF f],
     bufferCount = 0,
     permutations = 0\<rparr>"

definition Update ::
  "'n field_chip \<Rightarrow> 'n Variable list list \<Rightarrow> 'n Poseidon2BabyBearChip \<Rightarrow> 'n Variable
     \<Rightarrow> panic + 'n Poseidon2BabyBearChip" where
  "Update f rc16 p input =
    (if bufferCount p < 16 then
       let p = p\<lparr>State := (State p)[bufferCount p := AddF f (State p ! bufferCount p) input]\<rparr>;
           p = p\<lparr>bufferCount := bufferCount p + 1\<rparr>
       in if bufferCount p = 15
          then Inr (p\<lparr>State := babybear_PermuteMut f rc16 (State p),
                       permutations := permutations p + 1,
                       bufferCount := 0\<rparr>)
          else Inr p
     else Inl IndexOutOfRange)"

definition Finalize ::
  "'n field_chip \<Rightarrow> 'n Variable list list \<Rightarrow> 'n Poseidon2BabyBearChip
     \<Rightarrow> panic + ('n Variable list \<times> 'n Poseidon2BabyBearChip)" where
  "Finalize f rc16 p =
    (if bufferCount p < 16 then
       let p = (if bufferCount p > 0
                then p\<lparr>State := (State p)[bufferCount p := AddF f (State p ! bufferCount p) (OneF f)]\<rparr>
                else p\<lparr>State := (State p)[0 := AddF f (State p ! 0) (OneF f)]\<rparr>);
           p = p\<lparr>State := babybear_PermuteMut f rc16 (State p),
                   permutations := permutations p + 1\<rparr>;
           res = map (\<lambda>i. State p ! i) [0..<16]
       in Inr (res, p)
     else Inl IndexOutOfRange)"

text \<open>A caller that absorbs the inputs \<open>xs\<close> one \<open>Update\<close> after the other.\<close>

fun Updates ::
  "'n field_chip \<Rightarrow> 'n Variable list list \<Rightarrow> 'n Poseidon2BabyBearChip \<Rightarrow> 'n Variable list
     \<Rightarrow> panic + 'n Poseidon2BabyBearChip" where
  "Updates f rc16 p [] = Inr p"
| "Updates f rc16 p (x # xs) =
     (case Update f rc16 p x of Inl e \<Rightarrow> Inl e | Inr p' \<Rightarrow> Updates f rc16 p' xs)"

section \<open>The round structure in the words of the specification\<close>

text \<open>
  The permutation as the specification describes it, to be compared with \<open>PermuteMut\<close>:
  an external round adds the 16 constants of its row lane by lane, applies the S-box to
  every lane and then the external linear layer; an internal round adds the first constant
  of its row to lane 0, applies the S-box to lane 0 only, and replaces every lane by
  \<open>lane * diag + sum\<close>, the sum running over all 16 lanes; the permutation is one external
  linear layer, 4 external rounds, the internal rounds and 4 more external rounds, each
  round reading the next row of the table.
\<close>

definition external_round_spec ::
  "'n field_chip \<Rightarrow> ('n Variable \<Rightarrow> 'n Variable) \<Rightarrow> 'n Variable list \<Rightarrow> 'n Variable list \<Rightarrow> 'n Variable list" where
  "external_round_spec f sboxP row st =
     externalLinearLayer f (map sboxP (map2 (AddF f) st row))"

definition internal_round_spec ::
  "'n field_chip \<Rightarrow> ('n Variable \<Rightarrow> 'n Variable) \<Rightarrow> 'n Variable list \<Rightarrow> 'n Variable list \<Rightarrow> 'n Variable list \<Rightarrow> 'n Variable list" where
  "internal_round_spec f sboxP diag row st =
    (let st1 = sboxP (AddF f (hd st) (hd row)) # tl st;
         sum = foldl (AddF f) (NewFConst f 0) st1
     in map2 (\<lambda>x d. AddF f (MulF f x d) sum) st1 diag)"

definition permutation_spec ::
  "'n field_chip \<Rightarrow> ('n Variable \<Rightarrow> 'n Variable) \<Rightarrow> nat \<Rightarrow> 'n Variable list \<Rightarrow> 'n Variable list list \<Rightarrow> 'n Variable list \<Rightarrow> 'n Variable list" where
  "permutation_spec f sboxP internal diag rc st =
     fold (external_round_spec f sboxP) (take 4 (drop (4 + internal) rc))
       (fold (internal_round_spec f sboxP diag) (take internal (drop 4 rc))
          (fold (external_round_spec f sboxP) (take 4 rc)
             (externalLinearLayer f st)))"

section \<open>The on-chain proof encoder (package utils)\<close>

text \<open>
  \<^verbatim>\<open>math/big\<close>: \<^verbatim>\<open>(*Int).Bytes\<close> returns the big-endian bytes of the number without
  leading zero bytes (none at all for 0); \<^verbatim>\<open>(*Int).FillBytes(buf)\<close> stores the number
  big-endian in \<^verbatim>\<open>buf\<close>, zero-extended, and panics when it does not fit. The coordinates
  of a proof and the elements of a witness vector are field elements, read through
  \<^verbatim>\<open>BigInt\<close> as natural numbers.
\<close>

type_synonym byte = "8 word"

function Bytes :: "nat \<Rightarrow> byte list" where
  "Bytes x = (if x = 0 then [] else Bytes (x div 256) @ [of_nat (x mod 256)])"
  by pat_completeness auto
termination
  by (relation "measure id") auto

declare Bytes.simps [simp del]

datatype big_panic = BufferTooSmall

definition FillBytes :: "nat \<Rightarrow> nat \<Rightarrow> big_panic + byte list" where
  "FillBytes x n =
    (if n < length (Bytes x) then Inl BufferTooSmall
     else Inr (replicate (n - length (Bytes x)) 0 @ Bytes x))"

text \<open>
  \<^verbatim>\<open>encoding/hex\<close>: \<^verbatim>\<open>hex.Encode\<close> writes two characters of \<^verbatim>\<open>hextable\<close> for every byte,
  \<^verbatim>\<open>hextable[v>>4]\<close> and \<^verbatim>\<open>hextable[v&0x0f]\<close>.
\<close>

definition hextable :: string where
  "hextable = ''0123456789abcdef''"

definition hex_Encode :: "byte list \<Rightarrow> string" where
  "hex_Encode src =
     concat (map (\<lambda>v. [hextable ! unat (drop_bit 4 v), hextable ! unat (v AND 0x0f)]) src)"

text \<open>\<^verbatim>\<open>Encode\<close> of package utils: the hex string with the prefix 0x.\<close>

definition Encode :: "byte list \<Rightarrow> string" where
  "Encode b = ''0x'' @ hex_Encode b"

text \<open>
  The Groth16 proof over BN254 (\<^verbatim>\<open>groth16_bn254.Proof\<close>): \<^verbatim>\<open>Ar\<close> and \<^verbatim>\<open>Krs\<close> are points
  with coordinates \<^verbatim>\<open>X\<close>, \<^verbatim>\<open>Y\<close>; \<^verbatim>\<open>Bs\<close> has coordinates \<^verbatim>\<open>X\<close>, \<^verbatim>\<open>Y\<close> in the quadratic
  extension, each with components \<^verbatim>\<open>A0\<close>, \<^verbatim>\<open>A1\<close>.
\<close>

record E2 =
  A0 :: nat
  A1 :: nat

record G1Affine =
  G1_X :: nat
  G1_Y :: nat

record G2Affine =
  G2_X :: E2
  G2_Y :: E2

record bn254_Proof =
  Ar :: G1Affine
  Bs :: G2Affine
  Krs :: G1Affine

text \<open>\<^verbatim>\<open>ExportProof\<close>; the two commitment results are never assigned and are left out.\<close>

definition ExportProof :: "bn254_Proof \<Rightarrow> nat list \<times> nat list list \<times> nat list" where
  "ExportProof bn254Proof =
    ([G1_X (Ar bn254Proof), G1_Y (Ar bn254Proof)],
     [[A1 (G2_X (Bs bn254Proof)), A0 (G2_X (Bs bn254Proof))],
      [A1 (G2_Y (Bs bn254Proof)), A0 (G2_Y (Bs bn254Proof))]],
     [G1_X (Krs bn254Proof), G1_Y (Krs bn254Proof)])"

text \<open>
  \<^verbatim>\<open>GetAggOnChainProof\<close>, without its printing. The error result is always nil in the
  source; the only failure is the panic of \<^verbatim>\<open>FillBytes\<close> into the 32-byte buffer.
\<close>

definition GetAggOnChainProof :: "bn254_Proof \<Rightarrow> nat list \<Rightarrow> big_panic + string" where
  "GetAggOnChainProof proof swVector =
    (case ExportProof proof of (a, b, c) \<Rightarrow>
      let A = map (\<lambda>i. Encode (Bytes (a ! i))) [0..<2];
          B = map (\<lambda>i. map (\<lambda>j. Encode (Bytes (b ! i ! j))) [0..<2]) [0..<2];
          C = map (\<lambda>i. Encode (Bytes (c ! i))) [0..<2];
          result = '''';
          result = result @ A ! 0 @ '','';
          result = result @ A ! 1 @ '','';
          result = result @ B ! 0 ! 0 @ '','';
          result = result @ B ! 0 ! 1 @ '','';
          result = result @ B ! 1 ! 0 @ '','';
          result = result @ B ! 1 ! 1 @ '','';
          result = result @ C ! 0 @ '','';
          result = result @ C ! 1 @ '',''
      in fold (\<lambda>i acc.
            case acc of
              Inl e \<Rightarrow> Inl e
            | Inr result \<Rightarrow>
               (case FillBytes (swVector ! i) 32 of
                  Inl e \<Rightarrow> Inl e
                | Inr data \<Rightarrow>
                    if i = length swVector - 1 then Inr (result @ Encode data)
                    else Inr (result @ Encode data @ '','')))
          [0..<length swVector] (Inr result))"


text \<open>
  Two proofs to run the encoder on. Both are made of the generators of the two groups of
  BN254: the generator of the first group has the coordinates 1 and 2.
\<close>

definition generator_proof :: bn254_Proof where
  "generator_proof =
    \<lparr>Ar = \<lparr>G1_X = 1, G1_Y = 2\<rparr>,
     Bs = \<lparr>G2_X = \<lparr>A0 = 10857046999023057135944570762232829481370756359578518086990519993285655852781,
                     A1 = 11559732032986387107991004021392285783925812861821192530917403151452391805634\<rparr>,
           G2_Y = \<lparr>A0 = 8495653923123431417604973247489272438418190587263600148770280649306958101930,
                     A1 = 4082367875863433681332203403145435568316851327593401208105741076214120093531\<rparr>\<rparr>,
     Krs = \<lparr>G1_X = 1, G1_Y = 2\<rparr>\<rparr>"

section \<open>Command dispatch of the proof service (package sdk)\<close>

text \<open>
  A Go \<^verbatim>\<open>error\<close> is modelled by its message; \<^verbatim>\<open>nil\<close> is \<open>None\<close>.
  The lifecycle operations called by the dispatcher talk to the file system and to the
  Groth16 library, so the dispatcher is modelled over the outcome each of them reports.
  Besides its result, the model returns the operations it called, in call order.
\<close>

type_synonym go_error = "string option"

record sdk_outcomes =
  BabyBearProve_result :: go_error
  BabyBearSetup_result :: go_error
  ExportSolidify_result :: go_error
  DoBabyBearSolve_result :: go_error

datatype sdk_call = CallBabyBearProve | CallBabyBearSetup | CallExportSolidify | CallDoBabyBearSolve

definition newline :: string where
  "newline = [CHR 0x0A]"

text \<open>
  \<^verbatim>\<open>func BabyBearCmd(cmd string) (err error)\<close>. The result is a named one: the bare
  \<^verbatim>\<open>return\<close> after the switch hands back whatever the last assignment left in \<^verbatim>\<open>err\<close>.
  \<^verbatim>\<open>fmt.Errorf("...%v\n", err)\<close> prints a nil error as \<^verbatim>\<open><nil>\<close>.
\<close>

definition BabyBearCmd :: "sdk_outcomes \<Rightarrow> string \<Rightarrow> go_error \<times> sdk_call list" where
  "BabyBearCmd w cmd =
    (if cmd = ''prove'' then
       (case BabyBearProve_result w of
          Some e \<Rightarrow> (Some (''fail to prove: '' @ e @ newline), [CallBabyBearProve])
        | None \<Rightarrow> (None, [CallBabyBearProve]))
     else if cmd = ''setup'' then
       (case BabyBearSetup_result w of
          Some e \<Rightarrow> (Some (''fail to setup: '' @ e @ newline), [CallBabyBearSetup])
        | None \<Rightarrow>
           (case ExportSolidify_result w of
              None \<Rightarrow> (Some (''fail to export solidity: <nil>'' @ newline),
                         [CallBabyBearSetup, CallExportSolidify])
            | Some e \<Rightarrow> (Some e, [CallBabyBearSetup, CallExportSolidify])))
     else if cmd = ''solve'' then
       (case DoBabyBearSolve_result w of
          Some e \<Rightarrow> (Some (''fail to solve: '' @ e @ newline), [CallDoBabyBearSolve])
        | None \<Rightarrow> (None, [CallDoBabyBearSolve]))
     else if cmd = ''setupAndProve'' then
       (case BabyBearSetup_result w of
          Some e \<Rightarrow> (Some (''fail to setup: '' @ e @ newline), [CallBabyBearSetup])
        | None \<Rightarrow>
           (case ExportSolidify_result w of
              Some e \<Rightarrow> (Some (''fail to export solidity: '' @ e @ newline),
                           [CallBabyBearSetup, CallExportSolidify])
            | None \<Rightarrow>
               (case BabyBearProve_result w of
                  None \<Rightarrow> (Some (''fail to prove: <nil>'' @ newline),
                             [CallBabyBearSetup, CallExportSolidify, CallBabyBearProve])
                | Some e \<Rightarrow> (Some e,
                             [CallBabyBearSetup, CallExportSolidify, CallBabyBearProve]))))
     else if cmd = ''exportSolidity'' then
       (case ExportSolidify_result w of
          Some e \<Rightarrow> (Some (''fail to export solidity: '' @ e @ newline), [CallExportSolidify])
        | None \<Rightarrow> (None, [CallExportSolidify]))
     else (Some (''unknown command: '' @ cmd), []))"

text \<open>The run in which every lifecycle operation succeeds.\<close>

definition all_succeed :: sdk_outcomes where
  "all_succeed = \<lparr>BabyBearProve_result = None, BabyBearSetup_result = None,
     ExportSolidify_result = None, DoBabyBearSolve_result = None\<rparr>"

subsection \<open>Prove\<close>

text \<open>
  \<^verbatim>\<open>Prove(fullWitness, pubWitness)\<close> over the outcomes of the calls it makes:
  \<^verbatim>\<open>groth16.Prove\<close> on the loaded key material and the full witness,
  \<^verbatim>\<open>groth16.Verify\<close> of a proof against the loaded verifying key and the public
  witness, and \<^verbatim>\<open>ioutil.WriteFile\<close> of the encoded proof to the proof path. The model
  returns the result (or the panic of the encoder) and the calls made, in order.
\<close>

record prove_outcomes =
  groth16_Prove_result :: "string + bn254_Proof"
  groth16_Verify_result :: "bn254_Proof \<Rightarrow> go_error"
  WriteFile_result :: "string \<Rightarrow> go_error"

datatype prove_step = Groth16Prove | Groth16Verify | EncodeProof | WriteProofFile string

definition Prove :: "prove_outcomes \<Rightarrow> nat list \<Rightarrow> (big_panic + go_error) \<times> prove_step list" where
  "Prove w pubWitness =
    (case groth16_Prove_result w of
       Inl e \<Rightarrow> (Inr (Some (''failed to prove: '' @ e)), [Groth16Prove])
     | Inr pf \<Rightarrow>
        (case groth16_Verify_result w pf of
           Some e \<Rightarrow> (Inr (Some (''failed to verify proof: '' @ e)), [Groth16Prove, Groth16Verify])
         | None \<Rightarrow>
            (case GetAggOnChainProof pf pubWitness of
               Inl p \<Rightarrow> (Inl p, [Groth16Prove, Groth16Verify, EncodeProof])
             | Inr res \<Rightarrow>
                (case WriteFile_result w res of
                   Some e \<Rightarrow> (Inr (Some (''failed to write res, err: '' @ e)),
                               [Groth16Prove, Groth16Verify, EncodeProof, WriteProofFile res])
                 | None \<Rightarrow> (Inr None,
                             [Groth16Prove, Groth16Verify, EncodeProof, WriteProofFile res])))))"

text \<open>A run in which the generated proof does not verify.\<close>

definition unverifiable :: prove_outcomes where
  "unverifiable =
    \<lparr>groth16_Prove_result =
       Inr \<lparr>Ar = \<lparr>G1_X = 1, G1_Y = 2\<rparr>,
            Bs = \<lparr>G2_X = \<lparr>A0 = 4, A1 = 3\<rparr>, G2_Y = \<lparr>A0 = 6, A1 = 5\<rparr>\<rparr>,
            Krs = \<lparr>G1_X = 7, G1_Y = 8\<rparr>\<rparr>,
     groth16_Verify_result = (\<lambda>pf. Some ''pairing doesn't match''),
     WriteFile_result = (\<lambda>res. None)\<rparr>"

subsection \<open>BabyBearProve and its two tasks\<close>

text \<open>
  \<^verbatim>\<open>BabyBearProve\<close> starts two goroutines, one reading the proving key and one compiling
  the constraint system, and waits for both on the wait group \<^verbatim>\<open>loadLock\<close>. The model
  is a state machine with three threads. The main thread has one program point per
  fallible call; a task assigns its result and then runs its deferred
  \<^verbatim>\<open>loadLock.Done()\<close>. A schedule is the list of the threads that move, one step each; a
  thread that cannot move (a task not started or ended, the main thread blocked in
  \<^verbatim>\<open>Wait\<close> or returned) leaves the state as it is. The outcomes of the calls are
  parameters. \<open>Pk_read\<close> and \<open>Ccs_compiled\<close> say whether the globals \<^verbatim>\<open>Pk\<close> and \<^verbatim>\<open>Ccs\<close>
  hold what this call loaded; \<open>proved_with\<close> records them at the call of \<^verbatim>\<open>Prove\<close>.
\<close>

record BabyBearProve_outcomes =
  ReadProvingKey_result :: go_error
  ReadVerifyingKey_result :: go_error
  ReadFile_result :: go_error
  Unmarshal_result :: go_error
  IsSolved_result :: go_error
  NewWitness_result :: go_error
  Public_result :: go_error
  Compile_result :: go_error
  Prove_result :: go_error

datatype thread = MainThread | ReadKeyTask | CompileTask

datatype main_pc =
    AtAdd
  | AtReadVerifyingKey
  | AtReadFile
  | AtUnmarshal
  | AtIsSolved
  | AtNewWitness
  | AtPublic
  | AtGoCompile
  | AtWait
  | AtCheckCompileErr
  | AtCheckReadKeyErr
  | AtProve
  | Returned go_error

datatype task_pc = NotStarted | Running | Deferred | Ended

record BabyBearProve_state =
  pc :: main_pc
  readKey :: task_pc
  compile :: task_pc
  loadLock :: nat
  reafProveKeyErr :: go_error
  compileCcsErr :: go_error
  Pk_read :: bool
  Ccs_compiled :: bool
  proved_with :: "(bool \<times> bool) option"

text \<open>
  \<^verbatim>\<open>loadLock\<close> is a variable of the package, not of the call: a call starts with the
  counter that earlier calls have left. A call that returns before its second
  \<^verbatim>\<open>go\<close> statement has added 2 and leaves 1 for good, since only its first task calls
  \<^verbatim>\<open>Done\<close>. The state at the start of a call has that counter, \<open>left\<close>, as a parameter;
  it is 0 in the first call of a process, and the command line tool calls
  \<^verbatim>\<open>BabyBearProve\<close> at most once.
\<close>

definition initial :: "nat \<Rightarrow> BabyBearProve_state" where
  "initial left =
    \<lparr>pc = AtAdd, readKey = NotStarted, compile = NotStarted, loadLock = left,
     reafProveKeyErr = None, compileCcsErr = None, Pk_read = False, Ccs_compiled = False,
     proved_with = None\<rparr>"

definition fail_or :: "string \<Rightarrow> go_error \<Rightarrow> main_pc \<Rightarrow> main_pc" where
  "fail_or msg err next = (case err of Some e \<Rightarrow> Returned (Some (msg @ e)) | None \<Rightarrow> next)"

fun main_step :: "BabyBearProve_outcomes \<Rightarrow> BabyBearProve_state \<Rightarrow> BabyBearProve_state" where
  "main_step w s =
    (case pc s of
       AtAdd \<Rightarrow> s\<lparr>loadLock := loadLock s + 2, readKey := Running, pc := AtReadVerifyingKey\<rparr>
     | AtReadVerifyingKey \<Rightarrow>
         s\<lparr>pc := fail_or ''failed to read verifing key: '' (ReadVerifyingKey_result w) AtReadFile\<rparr>
     | AtReadFile \<Rightarrow>
         s\<lparr>pc := (case ReadFile_result w of
                     Some e \<Rightarrow> Returned (Some (''fail to read witness file: '' @ e @ newline))
                   | None \<Rightarrow> AtUnmarshal)\<rparr>
     | AtUnmarshal \<Rightarrow>
         s\<lparr>pc := fail_or ''failed to parse witness json: '' (Unmarshal_result w) AtIsSolved\<rparr>
     | AtIsSolved \<Rightarrow>
         s\<lparr>pc := fail_or ''failed to solve: '' (IsSolved_result w) AtNewWitness\<rparr>
     | AtNewWitness \<Rightarrow>
         s\<lparr>pc := fail_or ''failed to get full witness: '' (NewWitness_result w) AtPublic\<rparr>
     | AtPublic \<Rightarrow>
         s\<lparr>pc := fail_or ''failed to get public witness: '' (Public_result w) AtGoCompile\<rparr>
     | AtGoCompile \<Rightarrow> s\<lparr>compile := Running, pc := AtWait\<rparr>
     | AtWait \<Rightarrow> if loadLock s = 0 then s\<lparr>pc := AtCheckCompileErr\<rparr> else s
     | AtCheckCompileErr \<Rightarrow>
         s\<lparr>pc := fail_or ''fail to compile compiler: '' (compileCcsErr s) AtCheckReadKeyErr\<rparr>
     | AtCheckReadKeyErr \<Rightarrow>
         s\<lparr>pc := fail_or ''fail to read reproving key: '' (reafProveKeyErr s) AtProve\<rparr>
     | AtProve \<Rightarrow>
         s\<lparr>proved_with := Some (Pk_read s, Ccs_compiled s), pc := Returned (Prove_result w)\<rparr>
     | Returned err \<Rightarrow> s)"

fun readKey_step :: "BabyBearProve_outcomes \<Rightarrow> BabyBearProve_state \<Rightarrow> BabyBearProve_state" where
  "readKey_step w s =
    (case readKey s of
       NotStarted \<Rightarrow> s
     | Running \<Rightarrow>
         s\<lparr>reafProveKeyErr := ReadProvingKey_result w,
           Pk_read := (ReadProvingKey_result w = None),
           readKey := Deferred\<rparr>
     | Deferred \<Rightarrow> s\<lparr>loadLock := loadLock s - 1, readKey := Ended\<rparr>
     | Ended \<Rightarrow> s)"

fun compile_step :: "BabyBearProve_outcomes \<Rightarrow> BabyBearProve_state \<Rightarrow> BabyBearProve_state" where
  "compile_step w s =
    (case compile s of
       NotStarted \<Rightarrow> s
     | Running \<Rightarrow>
         (case Compile_result w of
            Some e \<Rightarrow> s\<lparr>compileCcsErr := Some e, compile := Deferred\<rparr>
          | None \<Rightarrow> s\<lparr>Ccs_compiled := True, compile := Deferred\<rparr>)
     | Deferred \<Rightarrow> s\<lparr>loadLock := loadLock s - 1, compile := Ended\<rparr>
     | Ended \<Rightarrow> s)"

fun step :: "BabyBearProve_outcomes \<Rightarrow> thread \<Rightarrow> BabyBearProve_state \<Rightarrow> BabyBearProve_state" where
  "step w MainThread s = main_step w s"
| "step w ReadKeyTask s = readKey_step w s"
| "step w CompileTask s = compile_step w s"

text \<open>A call of \<^verbatim>\<open>BabyBearProve\<close> that finds the counter \<open>left\<close>, run under a schedule.\<close>

definition BabyBearProve ::
  "BabyBearProve_outcomes \<Rightarrow> nat \<Rightarrow> thread list \<Rightarrow> BabyBearProve_state" where
  "BabyBearProve w left schedule = fold (step w) schedule (initial left)"

text \<open>
  \<^verbatim>\<open>BabyBearProve\<close> read as a sequential function of the outcomes, to compare the state
  machine with: the calls of the main thread in their order, then the two error checks
  after the join (the compilation first), then \<^verbatim>\<open>Prove\<close>.
\<close>

definition main_calls_succeed :: "BabyBearProve_outcomes \<Rightarrow> bool" where
  "main_calls_succeed w \<longleftrightarrow>
     ReadVerifyingKey_result w = None \<and> ReadFile_result w = None \<and> Unmarshal_result w = None
     \<and> IsSolved_result w = None \<and> NewWitness_result w = None \<and> Public_result w = None"

definition reaches_Prove :: "BabyBearProve_outcomes \<Rightarrow> bool" where
  "reaches_Prove w \<longleftrightarrow>
     main_calls_succeed w \<and> Compile_result w = None \<and> ReadProvingKey_result w = None"

definition sequential_result :: "BabyBearProve_outcomes \<Rightarrow> go_error" where
  "sequential_result w =
    (case ReadVerifyingKey_result w of
       Some e \<Rightarrow> Some (''failed to read verifing key: '' @ e)
     | None \<Rightarrow>
    (case ReadFile_result w of
       Some e \<Rightarrow> Some (''fail to read witness file: '' @ e @ newline)
     | None \<Rightarrow>
    (case Unmarshal_result w of
       Some e \<Rightarrow> Some (''failed to parse witness json: '' @ e)
     | None \<Rightarrow>
    (case IsSolved_result w of
       Some e \<Rightarrow> Some (''failed to solve: '' @ e)
     | None \<Rightarrow>
    (case NewWitness_result w of
       Some e \<Rightarrow> Some (''failed to get full witness: '' @ e)
     | None \<Rightarrow>
    (case Public_result w of
       Some e \<Rightarrow> Some (''failed to get public witness: '' @ e)
     | None \<Rightarrow>
    (case Compile_result w of
       Some e \<Rightarrow> Some (''fail to compile compiler: '' @ e)
     | None \<Rightarrow>
    (case ReadProvingKey_result w of
       Some e \<Rightarrow> Some (''fail to read reproving key: '' @ e)
     | None \<Rightarrow> Prove_result w))))))))"

text \<open>Auxiliary notions for stating the properties of the state machine.\<close>

fun pending :: "task_pc \<Rightarrow> nat" where
  "pending Ended = 0"
| "pending t = 1"

fun after_join :: "main_pc \<Rightarrow> bool" where
  "after_join AtCheckCompileErr = True"
| "after_join AtCheckReadKeyErr = True"
| "after_join AtProve = True"
| "after_join p = False"

fun before_go_compile :: "main_pc \<Rightarrow> bool" where
  "before_go_compile AtAdd = True"
| "before_go_compile AtReadVerifyingKey = True"
| "before_go_compile AtReadFile = True"
| "before_go_compile AtUnmarshal = True"
| "before_go_compile AtIsSolved = True"
| "before_go_compile AtNewWitness = True"
| "before_go_compile AtPublic = True"
| "before_go_compile AtGoCompile = True"
| "before_go_compile p = False"

fun wrote :: "task_pc \<Rightarrow> bool" where
  "wrote Deferred = True"
| "wrote Ended = True"
| "wrote t = False"

text \<open>What the outcomes must be for the main thread to stand at a program point.\<close>

fun passed :: "BabyBearProve_outcomes \<Rightarrow> main_pc \<Rightarrow> bool" where
  "passed w AtAdd = True"
| "passed w AtReadVerifyingKey = True"
| "passed w AtReadFile = (ReadVerifyingKey_result w = None)"
| "passed w AtUnmarshal = (ReadVerifyingKey_result w = None \<and> ReadFile_result w = None)"
| "passed w AtIsSolved =
     (ReadVerifyingKey_result w = None \<and> ReadFile_result w = None \<and> Unmarshal_result w = None)"
| "passed w AtNewWitness =
     (ReadVerifyingKey_result w = None \<and> ReadFile_result w = None \<and> Unmarshal_result w = None
      \<and> IsSolved_result w = None)"
| "passed w AtPublic =
     (ReadVerifyingKey_result w = None \<and> ReadFile_result w = None \<and> Unmarshal_result w = None
      \<and> IsSolved_result w = None \<and> NewWitness_result w = None)"
| "passed w AtGoCompile = main_calls_succeed w"
| "passed w AtWait = main_calls_succeed w"
| "passed w AtCheckCompileErr = main_calls_succeed w"
| "passed w AtCheckReadKeyErr = (main_calls_succeed w \<and> Compile_result w = None)"
| "passed w AtProve = reaches_Prove w"
| "passed w (Returned err) = (err = sequential_result w)"

text \<open>
  What holds in every state a schedule can reach: the counter of the wait group is what
  earlier calls left plus the number of tasks of this call that have not ended, the error
  variables hold what the tasks wrote, the main thread stands where the outcomes let it,
  and \<^verbatim>\<open>Prove\<close> has been called exactly when the call has returned past both checks.
\<close>

definition invariant :: "BabyBearProve_outcomes \<Rightarrow> nat \<Rightarrow> BabyBearProve_state \<Rightarrow> bool" where
  "invariant w left s \<longleftrightarrow>
     (if pc s = AtAdd then readKey s = NotStarted \<and> loadLock s = left
      else readKey s \<noteq> NotStarted
           \<and> loadLock s = left + pending (readKey s) + pending (compile s))
   \<and> (if before_go_compile (pc s) then compile s = NotStarted else True)
   \<and> (if pc s = AtWait then compile s \<noteq> NotStarted else True)
   \<and> (if after_join (pc s) then left = 0 \<and> readKey s = Ended \<and> compile s = Ended else True)
   \<and> (if wrote (readKey s)
       then reafProveKeyErr s = ReadProvingKey_result w \<and> Pk_read s = (ReadProvingKey_result w = None)
       else reafProveKeyErr s = None \<and> \<not> Pk_read s)
   \<and> (if wrote (compile s)
       then compileCcsErr s = Compile_result w \<and> Ccs_compiled s = (Compile_result w = None)
       else compileCcsErr s = None \<and> \<not> Ccs_compiled s)
   \<and> passed w (pc s)
   \<and> (case pc s of
         Returned err \<Rightarrow>
           proved_with s = (if reaches_Prove w then Some (True, True) else None)
           \<and> (if main_calls_succeed w
               then left = 0 \<and> readKey s = Ended \<and> compile s = Ended
               else compile s = NotStarted)
       | _ \<Rightarrow> proved_with s = None)"

text \<open>The position of a program point of the main thread in program order.\<close>

fun rank :: "main_pc \<Rightarrow> nat" where
  "rank AtAdd = 0"
| "rank AtReadVerifyingKey = 1"
| "rank AtReadFile = 2"
| "rank AtUnmarshal = 3"
| "rank AtIsSolved = 4"
| "rank AtNewWitness = 5"
| "rank AtPublic = 6"
| "rank AtGoCompile = 7"
| "rank AtWait = 8"
| "rank AtCheckCompileErr = 9"
| "rank AtCheckReadKeyErr = 10"
| "rank AtProve = 11"
| "rank (Returned err) = 12"

text \<open>
  A schedule that lets every thread finish from any reachable state: the main thread up to
  \<^verbatim>\<open>Wait\<close>, both tasks to their end, the main thread to its return.
\<close>

definition completion :: "thread list" where
  "completion =
     replicate 8 MainThread @ [ReadKeyTask, ReadKeyTask, CompileTask, CompileTask]
       @ replicate 4 MainThread"

text \<open>
  Two runs: one in which every call succeeds, and one in which the proving key file is
  missing and everything else succeeds.
\<close>

definition all_calls_succeed :: BabyBearProve_outcomes where
  "all_calls_succeed =
    \<lparr>ReadProvingKey_result = None,
     ReadVerifyingKey_result = None, ReadFile_result = None, Unmarshal_result = None,
     IsSolved_result = None, NewWitness_result = None, Public_result = None,
     Compile_result = None, Prove_result = None\<rparr>"

definition key_missing :: BabyBearProve_outcomes where
  "key_missing =
    \<lparr>ReadProvingKey_result = Some ''open ./data/vm_pk: no such file or directory'',
     ReadVerifyingKey_result = None, ReadFile_result = None, Unmarshal_result = None,
     IsSolved_result = None, NewWitness_result = None, Public_result = None,
     Compile_result = None, Prove_result = None\<rparr>"

subsection \<open>The command line entry point\<close>

text \<open>
  \<^verbatim>\<open>main\<close> of the command line tool, after \<^verbatim>\<open>flag.Parse()\<close>: the parsed flags are a
  record (\<open>cmd_flag\<close> and \<open>field_flag\<close> are the flags \<^verbatim>\<open>cmd\<close> and \<^verbatim>\<open>field\<close>). The outcome
  of \<^verbatim>\<open>os.Setenv\<close> and of \<^verbatim>\<open>sdk.KoalaBearCmd\<close>, which is not among the sources, are
  parameters. The model returns what the run printed and which command of the sdk it
  ran, in order, and the exit status of the process. Every path through \<^verbatim>\<open>main\<close> ends
  in a \<^verbatim>\<open>return\<close> or at the end of the function, and nothing calls \<^verbatim>\<open>os.Exit\<close>: the
  exit status is 0.
\<close>

record flags =
  cmd_flag :: string
  pkPath :: string
  ccsPath :: string
  vkPath :: string
  useGroth16 :: bool
  witnessFile :: string
  constraintsFile :: string
  proofPath :: string
  solidifyPath :: string
  field_flag :: string

record main_env =
  Setenv :: "string \<Rightarrow> string \<Rightarrow> go_error"
  babybear_outcomes :: sdk_outcomes
  KoalaBearCmd_result :: "string \<Rightarrow> go_error"

datatype main_event = Printf string | RunBabyBearCmd string "sdk_call list" | RunKoalaBearCmd string

definition main :: "main_env \<Rightarrow> flags \<Rightarrow> main_event list \<times> nat" where
  "main w fl =
   ((case (if useGroth16 fl then Setenv w ''GROTH16'' ''1'' else None) of
       Some e \<Rightarrow> [Printf (''failed to set env var: '' @ e @ newline)]
     | None \<Rightarrow>
    (case Setenv w ''PK_PATH'' (pkPath fl) of
       Some e \<Rightarrow> [Printf (''failed to set pk env var: '' @ e @ newline)]
     | None \<Rightarrow>
    (case Setenv w ''CCS_PATH'' (ccsPath fl) of
       Some e \<Rightarrow> [Printf (''failed to set ccs env var: '' @ e @ newline)]
     | None \<Rightarrow>
    (case Setenv w ''VK_PATH'' (vkPath fl) of
       Some e \<Rightarrow> [Printf (''failed to set vk env var: '' @ e @ newline)]
     | None \<Rightarrow>
    (case Setenv w ''WITNESS_JSON'' (witnessFile fl) of
       Some e \<Rightarrow> [Printf (''failed to set witness env var: '' @ e @ newline)]
     | None \<Rightarrow>
    (case Setenv w ''CONSTRAINTS_JSON'' (constraintsFile fl) of
       Some e \<Rightarrow> [Printf (''failed to set constrains env var: '' @ e @ newline)]
     | None \<Rightarrow>
    (case Setenv w ''PROOF_PATH'' (proofPath fl) of
       Some e \<Rightarrow> [Printf (''failed to set proof path env var: '' @ e @ newline)]
     | None \<Rightarrow>
    (case Setenv w ''SOLIDITY_PATH'' (solidifyPath fl) of
       Some e \<Rightarrow> [Printf (''failed to set solidify path env var: '' @ e @ newline)]
     | None \<Rightarrow>
    (if field_flag fl = ''bb'' then
       (case BabyBearCmd (babybear_outcomes w) (cmd_flag fl) of
          (Some e, calls) \<Rightarrow> [RunBabyBearCmd (cmd_flag fl) calls,
                               Printf (''failed to babybear: '' @ e @ newline)]
        | (None, calls) \<Rightarrow> [RunBabyBearCmd (cmd_flag fl) calls])
     else if field_flag fl = ''kb'' then
       (case KoalaBearCmd_result w (cmd_flag fl) of
          Some e \<Rightarrow> [RunKoalaBearCmd (cmd_flag fl),
                      Printf (''failed to koalabear: '' @ e @ newline)]
        | None \<Rightarrow> [RunKoalaBearCmd (cmd_flag fl)])
     else [Printf (''field '' @ field_flag fl @ '' not supported'' @ newline)]))))))))),
    0)"

fun is_Printf :: "main_event \<Rightarrow> bool" where
  "is_Printf (Printf msg) = True"
| "is_Printf event = False"

text \<open>An environment in which every variable can be set and every operation succeeds.\<close>

definition all_set :: main_env where
  "all_set = \<lparr>Setenv = (\<lambda>k v. None), babybear_outcomes = all_succeed,
               KoalaBearCmd_result = (\<lambda>c. None)\<rparr>"

section \<open>Properties\<close>

subsection \<open>Loops over the state as maps\<close>

lemma fold_update_upt:
  "n \<le> length st \<Longrightarrow>
   fold (\<lambda>i st. st[i := g i (st ! i)]) [0..<n] st = map (\<lambda>i. g i (st ! i)) [0..<n] @ drop n st"
proof (induction n)
  case 0
  then show ?case by simp
next
  case (Suc n)
  then have n: "n < length st" by simp
  have "fold (\<lambda>i st. st[i := g i (st ! i)]) [0..<Suc n] st
        = (map (\<lambda>i. g i (st ! i)) [0..<n] @ drop n st)[n := g n ((map (\<lambda>i. g i (st ! i)) [0..<n] @ drop n st) ! n)]"
    using Suc by simp
  also have "\<dots> = map (\<lambda>i. g i (st ! i)) [0..<n] @ (drop n st)[0 := g n (st ! n)]"
    using n by (simp add: list_update_append nth_append)
  also have "(drop n st)[0 := g n (st ! n)] = g n (st ! n) # drop (Suc n) st"
    using n by (simp add: Cons_nth_drop_Suc [symmetric])
  finally show ?case by simp
qed

lemma fold_update_all:
  "fold (\<lambda>i st. st[i := g i (st ! i)]) [0..<length st] st = map (\<lambda>i. g i (st ! i)) [0..<length st]"
  using fold_update_upt [of "length st" st g] by simp

lemma addRc_map2:
  "length st = 16 \<Longrightarrow> length row = 16 \<Longrightarrow> addRc f st row = map2 (AddF f) st row"
  unfolding addRc_def WIDTH_def
  using fold_update_all [of "\<lambda>i x. AddF f x (row ! i)" st]
  by (simp add: list_eq_iff_nth_eq)

lemma sbox_map: "length st = 16 \<Longrightarrow> sbox sboxP st = map sboxP st"
  unfolding sbox_def WIDTH_def
  using fold_update_all [of "\<lambda>i x. sboxP x" st]
  by (simp add: list_eq_iff_nth_eq)

lemma fold_nth_upt: "fold (\<lambda>i s. h s (st ! i)) [0..<length st] z = foldl h z st"
proof -
  have "fold (\<lambda>x s. h s x) (map (nth st) [0..<length st]) z = fold ((\<lambda>x s. h s x) \<circ> nth st) [0..<length st] z"
    by (simp add: fold_map)
  then show ?thesis by (simp add: map_nth foldl_conv_fold comp_def)
qed

lemma matmulInternal_map2:
  assumes "length st = 16" "length diag = 16"
  shows "matmulInternal f st diag =
         map2 (\<lambda>x d. AddF f (MulF f x d) (foldl (AddF f) (NewFConst f 0) st)) st diag"
proof -
  let ?sum = "foldl (AddF f) (NewFConst f 0) st"
  have s: "fold (\<lambda>i sum. AddF f sum (st ! i)) [0..<WIDTH] (NewFConst f 0) = ?sum"
    using fold_nth_upt [of "AddF f" st] assms by (simp add: WIDTH_def)
  have "fold (\<lambda>i st. let st = st[i := MulF f (st ! i) (diag ! i)] in st[i := AddF f (st ! i) ?sum]) [0..<length st] st
      = fold (\<lambda>i st. st[i := AddF f (MulF f (st ! i) (diag ! i)) ?sum]) [0..<length st] st"
  proof (rule fold_cong [OF refl refl])
    fix i
    show "(\<lambda>st. let st = st[i := MulF f (st ! i) (diag ! i)] in st[i := AddF f (st ! i) ?sum])
        = (\<lambda>st. st[i := AddF f (MulF f (st ! i) (diag ! i)) ?sum])"
    proof
      fix xs :: "'a Variable list"
      show "(let st = xs[i := MulF f (xs ! i) (diag ! i)] in st[i := AddF f (st ! i) ?sum])
          = xs[i := AddF f (MulF f (xs ! i) (diag ! i)) ?sum]"
        by (cases "i < length xs") (simp_all add: Let_def list_update_beyond)
    qed
  qed
  also have "\<dots> = map (\<lambda>i. AddF f (MulF f (st ! i) (diag ! i)) ?sum) [0..<length st]"
    using fold_update_all [of "\<lambda>i x. AddF f (MulF f x (diag ! i)) ?sum" st] by simp
  also have "\<dots> = map2 (\<lambda>x d. AddF f (MulF f x d) ?sum) st diag"
    using assms by (simp add: list_eq_iff_nth_eq)
  finally show ?thesis
    unfolding matmulInternal_def s Let_def using assms by (simp add: WIDTH_def)
qed


lemma length_mdsLightPermutation4x4 [simp]:
  "length (mdsLightPermutation4x4 f st) = length st"
  by (simp add: mdsLightPermutation4x4_def Let_def)

lemma length_fold_update [simp]:
  "length (fold (\<lambda>i st. st[i := g i st]) is st) = length st"
  by (induction "is" arbitrary: st) simp_all

lemma length_externalLinearLayer:
  assumes "length st = 16"
  shows "length (externalLinearLayer f st) = 16"
proof -
  have "length (fold (\<lambda>i st. take i st @ mdsLightPermutation4x4 f (take 4 (drop i st))
                                @ drop (i + 4) st) [0, 4, 8, 12] st) = 16"
    using assms by simp
  then show ?thesis
    unfolding externalLinearLayer_def Let_def by (simp only: length_fold_update)
qed

lemma external_round_eq:
  assumes "length st = 16" "length row = 16"
  shows "externalLinearLayer f (sbox sboxP (addRc f st row)) = external_round_spec f sboxP row st"
  using assms by (simp add: external_round_spec_def addRc_map2 sbox_map)

lemma internal_round_eq:
  assumes "length st = 16" "length row = 16" "length diag = 16"
  shows "matmulInternal f (st[0 := sboxP (AddF f (st ! 0) (row ! 0))]) diag
         = internal_round_spec f sboxP diag row st"
proof -
  obtain x xs where st: "st = x # xs" using assms(1) by (cases st) auto
  obtain c cs where row: "row = c # cs" using assms(2) by (cases row) auto
  have l: "length (sboxP (AddF f x c) # xs) = 16" using assms(1) st by simp
  show ?thesis
    unfolding internal_round_spec_def Let_def
    using matmulInternal_map2 [OF l assms(3), of f] by (simp add: st row)
qed

lemma length_external_round_spec:
  "length st = 16 \<Longrightarrow> length row = 16 \<Longrightarrow> length (external_round_spec f sboxP row st) = 16"
  by (simp add: external_round_spec_def length_externalLinearLayer)

lemma length_internal_round_spec:
  "length st = 16 \<Longrightarrow> length diag = 16 \<Longrightarrow> length (internal_round_spec f sboxP diag row st) = 16"
  by (cases st) (simp_all add: internal_round_spec_def Let_def)

lemma fold_rounds:
  assumes step: "\<And>r st. r \<in> set rs \<Longrightarrow> length st = 16 \<Longrightarrow> g r st = h (rc ! r) st \<and> length (h (rc ! r) st) = 16"
    and "length st = 16"
  shows "fold g rs st = fold h (map (nth rc) rs) st \<and> length (fold g rs st) = 16"
  using assms
proof (induction rs arbitrary: st)
  case Nil
  then show ?case by simp
next
  case (Cons r rs)
  have g: "g r st = h (rc ! r) st" and l: "length (h (rc ! r) st) = 16"
    using Cons.prems(1) [of r st] Cons.prems(2) by simp_all
  have ih: "fold g rs (h (rc ! r) st) = fold h (map (nth rc) rs) (h (rc ! r) st)
        \<and> length (fold g rs (h (rc ! r) st)) = 16"
    by (rule Cons.IH [OF _ l]) (simp add: Cons.prems(1))
  note e = conjunct1 [OF ih] and l2 = conjunct2 [OF ih]
  have "fold g (r # rs) st = fold g rs (h (rc ! r) st)"
    by (simp add: g)
  moreover have "fold h (map (nth rc) (r # rs)) st = fold h (map (nth rc) rs) (h (rc ! r) st)"
    by simp
  ultimately show ?case using e l2 by metis
qed

lemma map_nth_upt_take_drop:
  "b \<le> length rc \<Longrightarrow> map (nth rc) [a..<b] = take (b - a) (drop a rc)"
  by (simp add: list_eq_iff_nth_eq)

lemma permutation_refines:
  fixes f :: "'n field_chip"
  assumes st: "length st = 16" and rc: "4 + internal + 4 \<le> length rc"
    and rows: "\<forall>row \<in> set rc. length row = 16" and diag: "length diag = 16"
  shows "fold (\<lambda>r st. let st = addRc f st (rc ! r); st = sbox sboxP st in externalLinearLayer f st)
           [4 + internal..<8 + internal]
          (fold (\<lambda>r st. let st = st[0 := AddF f (st ! 0) (rc ! r ! 0)]; st = st[0 := sboxP (st ! 0)]
                    in matmulInternal f st diag) [4..<4 + internal]
            (fold (\<lambda>r st. let st = addRc f st (rc ! r); st = sbox sboxP st in externalLinearLayer f st)
               [0..<4] (externalLinearLayer f st)))
       = permutation_spec f sboxP internal diag rc st"
proof -
  have row: "length (rc ! r) = 16" if "r < length rc" for r
    using rows that by simp
  let ?ext = "\<lambda>r st. let st = addRc f st (rc ! r); st = sbox sboxP st in externalLinearLayer f st"
  let ?int = "\<lambda>r st. let st = st[0 := AddF f (st ! 0) (rc ! r ! 0)]; st = st[0 := sboxP (st ! 0)]
                    in matmulInternal f st diag"
  have ext: "?ext r s = external_round_spec f sboxP (rc ! r) s
             \<and> length (external_round_spec f sboxP (rc ! r) s) = 16"
    if "r < length rc" "length s = 16" for r s
    using that row [OF that(1)]
    by (simp add: Let_def external_round_eq length_external_round_spec)
  have int: "?int r s = internal_round_spec f sboxP diag (rc ! r) s
             \<and> length (internal_round_spec f sboxP diag (rc ! r) s) = 16"
    if "r < length rc" "length s = 16" for r s
    using that row [OF that(1)] diag
    by (simp add: Let_def internal_round_eq length_internal_round_spec)
  let ?s0 = "externalLinearLayer f st"
  have l0: "length ?s0 = 16" using st by (rule length_externalLinearLayer)
  have a: "fold ?ext [0..<4] ?s0 = fold (external_round_spec f sboxP) (map (nth rc) [0..<4]) ?s0
           \<and> length (fold ?ext [0..<4] ?s0) = 16"
    by (rule fold_rounds [OF _ l0]) (use rc ext in auto)
  let ?s1 = "fold ?ext [0..<4] ?s0"
  have b: "fold ?int [4..<4 + internal] ?s1
             = fold (internal_round_spec f sboxP diag) (map (nth rc) [4..<4 + internal]) ?s1
           \<and> length (fold ?int [4..<4 + internal] ?s1) = 16"
    by (rule fold_rounds [OF _ conjunct2 [OF a]]) (use rc int in auto)
  let ?s2 = "fold ?int [4..<4 + internal] ?s1"
  have c: "fold ?ext [4 + internal..<8 + internal] ?s2
             = fold (external_round_spec f sboxP) (map (nth rc) [4 + internal..<8 + internal]) ?s2
           \<and> length (fold ?ext [4 + internal..<8 + internal] ?s2) = 16"
    by (rule fold_rounds [OF _ conjunct2 [OF b]]) (use rc ext in auto)
  have m1: "map (nth rc) [0..<4] = take 4 rc"
    using map_nth_upt_take_drop [of 4 rc 0] rc by simp
  have m2: "map (nth rc) [4..<4 + internal] = take internal (drop 4 rc)"
    using map_nth_upt_take_drop [of "4 + internal" rc 4] rc by simp
  have m3: "map (nth rc) [4 + internal..<8 + internal] = take 4 (drop (4 + internal) rc)"
    using map_nth_upt_take_drop [of "8 + internal" rc "4 + internal"] rc by simp
  show ?thesis
    unfolding permutation_spec_def
    using a b c by (simp only: m1 m2 m3)
qed

lemma babybear_PermuteMut_refines:
  fixes f :: "'n field_chip"
  assumes "length st = 16" and "\<forall>row \<in> set rc. length row = 16" and rc: "21 \<le> length rc"
  shows "babybear_PermuteMut f rc st =
           permutation_spec f (babybear_sboxP f) 13 (map (NewFConst f) babybear_matInternalDiagM1) rc st"
proof -
  have d: "length (map (NewFConst f) babybear_matInternalDiagM1) = 16"
    by (simp add: babybear_matInternalDiagM1_def)
  have n: "NumExternalRounds div 2 = 4" "NumExternalRounds + babybearNumInternalRounds = 8 + 13"
    by (simp_all add: NumExternalRounds_def babybearNumInternalRounds_def)
  have rc': "4 + 13 + 4 \<le> length rc" using rc by simp
  show ?thesis
    unfolding babybear_PermuteMut_def babybear_diffusionPermuteMut_def n
    unfolding babybearNumInternalRounds_def
    using permutation_refines [OF assms(1) rc' assms(2) d, of f "babybear_sboxP f"]
    by (simp only: Let_def)
qed

lemma koalabear_PermuteMut_refines:
  fixes f :: "'n field_chip"
  assumes "length st = 16" and "\<forall>row \<in> set rc. length row = 16" and rc: "28 \<le> length rc"
  shows "koalabear_PermuteMut f rc st =
           permutation_spec f (koalabear_sboxP f) 20 (map (NewFConst f) koalabear_matInternalDiagM1) rc st"
proof -
  have d: "length (map (NewFConst f) koalabear_matInternalDiagM1) = 16"
    by (simp add: koalabear_matInternalDiagM1_def)
  have n: "NumExternalRounds div 2 = 4" "NumExternalRounds + koalabearNumInternalRounds = 8 + 20"
    by (simp_all add: NumExternalRounds_def koalabearNumInternalRounds_def)
  have rc': "4 + 20 + 4 \<le> length rc" using rc by simp
  show ?thesis
    unfolding koalabear_PermuteMut_def koalabear_diffusionPermuteMut_def n
    unfolding koalabearNumInternalRounds_def
    using permutation_refines [OF assms(1) rc' assms(2) d, of f "koalabear_sboxP f"]
    by (simp only: Let_def)
qed

subsection \<open>The S-box on numbers and as a circuit\<close>

lemma small_power_below_native:
  fixes y :: int
  assumes "0 \<le> y" "y < 2130706433" "k \<le> 7"
  shows "0 \<le> y ^ k" "y ^ k < native_modulus"
proof -
  show "0 \<le> y ^ k" using assms(1) by simp
  have "y ^ k \<le> 2130706432 ^ k"
    using assms(1,2) by (intro power_mono) simp_all
  also have "\<dots> \<le> (2130706432 :: int) ^ 7"
    using assms(3) by (intro power_increasing) simp_all
  also have "\<dots> < native_modulus"
    by (simp add: native_modulus_def)
  finally show "y ^ k < native_modulus" .
qed

lemma native_mul_small:
  fixes y :: int
  assumes "0 \<le> y" "y < 2130706433" "i + j \<le> 7"
  shows "(y ^ i * y ^ j) mod native_modulus = y ^ (i + j)"
  using small_power_below_native [OF assms(1,2), of "i + j"] assms(3)
  by (simp add: power_add)

lemma babybear_sboxP_product_value:
  fixes x :: "int Variable"
  defines "y \<equiv> (Value x mod native_modulus) mod babybear_modulus"
  shows "Value (babybear_sboxP_product (value_chip babybear_modulus) x) = y ^ 7"
proof -
  have y: "0 \<le> y" "y < 2130706433"
    by (simp_all add: y_def babybear_modulus_def)
  have i2: "(y * y) mod native_modulus = y ^ 2"
    using native_mul_small [OF y, of 1 1] by (simp add: power2_eq_square)
  have i4: "(y ^ 2 * y ^ 2) mod native_modulus = y ^ 4"
    using native_mul_small [OF y, of 2 2] by simp
  have i6: "(y ^ 4 * y ^ 2) mod native_modulus = y ^ 6"
    using native_mul_small [OF y, of 4 2] by simp
  have i7: "(y ^ 6 * y) mod native_modulus = y ^ 7"
    using native_mul_small [OF y, of 6 1] by simp
  have v: "Value (ReduceSlow (value_chip babybear_modulus)
             (AddF (value_chip babybear_modulus) x (NewFConst (value_chip babybear_modulus) 0))) = y"
    by (simp add: value_chip_def y_def)
  have m: "api_Mul (value_chip babybear_modulus) = (\<lambda>a b. (a * b) mod native_modulus)"
    by (simp add: value_chip_def)
  show ?thesis
    unfolding babybear_sboxP_product_def Let_def v m
    by (simp only: i2 i4 i6 i7 Variable.simps)
qed

lemma koalabear_sboxP_product_value:
  fixes x :: "int Variable"
  defines "y \<equiv> (Value x mod native_modulus) mod koalabear_modulus"
  shows "Value (koalabear_sboxP_product (value_chip koalabear_modulus) x) = y ^ 3"
proof -
  have y: "0 \<le> y" "y < 2130706433"
    by (simp_all add: y_def koalabear_modulus_def)
  have i2: "(y * y) mod native_modulus = y ^ 2"
    using native_mul_small [OF y, of 1 1] by (simp add: power2_eq_square)
  have i3: "(y ^ 2 * y) mod native_modulus = y ^ 3"
    using native_mul_small [OF y, of 2 1] by simp
  have v: "Value (ReduceSlow (value_chip koalabear_modulus)
             (AddF (value_chip koalabear_modulus) x (NewFConst (value_chip koalabear_modulus) 0))) = y"
    by (simp add: value_chip_def y_def)
  have m: "api_Mul (value_chip koalabear_modulus) = (\<lambda>a b. (a * b) mod native_modulus)"
    by (simp add: value_chip_def)
  show ?thesis
    unfolding koalabear_sboxP_product_def Let_def v m
    by (simp only: i2 i3 Variable.simps)
qed

lemma babybear_sboxP_value:
  "Value (babybear_sboxP (value_chip babybear_modulus) x)
     = ((Value x mod native_modulus) mod babybear_modulus) ^ 7 mod babybear_modulus"
  unfolding babybear_sboxP_def
  using babybear_sboxP_product_value [of x] by (simp add: value_chip_def)

lemma koalabear_sboxP_value:
  "Value (koalabear_sboxP (value_chip koalabear_modulus) x)
     = ((Value x mod native_modulus) mod koalabear_modulus) ^ 3 mod koalabear_modulus"
  unfolding koalabear_sboxP_def
  using koalabear_sboxP_product_value [of x] by (simp add: value_chip_def)

lemma babybear_sboxP_recorded:
  "Value (babybear_sboxP (recording_chip p) x) =
     (let r = ByReduceSlow (ByAddF (Value x) (Lit 0)) in
      ByReduceSlow (ByMul (ByMul (ByMul (ByMul r r) (ByMul r r)) (ByMul r r)) r))"
  by (simp add: babybear_sboxP_def babybear_sboxP_product_def recording_chip_def Let_def)

lemma koalabear_sboxP_recorded:
  "Value (koalabear_sboxP (recording_chip p) x) =
     (let r = ByReduceSlow (ByAddF (Value x) (Lit 0)) in
      ByReduceSlow (ByMul (ByMul r r) r))"
  by (simp add: koalabear_sboxP_def koalabear_sboxP_product_def recording_chip_def Let_def)

subsection \<open>The round structure of PermuteMut\<close>

text \<open>
  C2. For a state of 16 lanes and a table whose rows have 16 constants, with at least
  21 rows for BabyBear and 28 for KoalaBear, \<open>PermuteMut\<close> is the permutation of the
  specification: the initial external linear layer, 4 external rounds on rows 0 to 3, then
  13 (BabyBear) or 20 (KoalaBear) internal rounds on the following rows with the diagonal
  of the field, then 4 external rounds on the rows after those. This holds for every
  field chip. On the arithmetic of the specification the S-box of the BabyBear chip is the
  7th power modulo the BabyBear prime and that of the KoalaBear chip the 3rd power modulo
  the KoalaBear prime.
\<close>

theorem PermuteMut_round_structure:
  fixes f :: "'n field_chip" and x :: "int Variable"
  assumes "length st = 16" and "\<forall>row \<in> set rc. length row = 16"
  shows "(21 \<le> length rc \<longrightarrow>
            babybear_PermuteMut f rc st =
              permutation_spec f (babybear_sboxP f) 13
                (map (NewFConst f) babybear_matInternalDiagM1) rc st)
       \<and> (28 \<le> length rc \<longrightarrow>
            koalabear_PermuteMut f rc st =
              permutation_spec f (koalabear_sboxP f) 20
                (map (NewFConst f) koalabear_matInternalDiagM1) rc st)
       \<and> Value (babybear_sboxP (value_chip babybear_modulus) x)
            = ((Value x mod native_modulus) mod babybear_modulus) ^ 7 mod babybear_modulus
       \<and> Value (koalabear_sboxP (value_chip koalabear_modulus) x)
            = ((Value x mod native_modulus) mod koalabear_modulus) ^ 3 mod koalabear_modulus"
  using babybear_PermuteMut_refines [OF assms] koalabear_PermuteMut_refines [OF assms]
    babybear_sboxP_value [of x] koalabear_sboxP_value [of x]
  by blast

theorem PermuteMut_round_structure_witness:
  "babybear_PermuteMut (value_chip babybear_modulus)
      (replicate 28 (replicate 16 \<lparr>Value = 0, UpperBound = 0\<rparr>))
      (replicate 16 \<lparr>Value = 0, UpperBound = 0\<rparr>) =
    permutation_spec (value_chip babybear_modulus) (babybear_sboxP (value_chip babybear_modulus)) 13
      (map (NewFConst (value_chip babybear_modulus)) babybear_matInternalDiagM1)
      (replicate 28 (replicate 16 \<lparr>Value = 0, UpperBound = 0\<rparr>))
      (replicate 16 \<lparr>Value = 0, UpperBound = 0\<rparr>)
   \<and> koalabear_PermuteMut (value_chip koalabear_modulus)
      (replicate 28 (replicate 16 \<lparr>Value = 0, UpperBound = 0\<rparr>))
      (replicate 16 \<lparr>Value = 0, UpperBound = 0\<rparr>) =
    permutation_spec (value_chip koalabear_modulus) (koalabear_sboxP (value_chip koalabear_modulus)) 20
      (map (NewFConst (value_chip koalabear_modulus)) koalabear_matInternalDiagM1)
      (replicate 28 (replicate 16 \<lparr>Value = 0, UpperBound = 0\<rparr>))
      (replicate 16 \<lparr>Value = 0, UpperBound = 0\<rparr>)"
proof -
  let ?z = "\<lparr>Value = 0 :: int, UpperBound = 0\<rparr>"
  have st: "length (replicate 16 ?z) = 16"
    by simp
  have rows: "\<forall>row \<in> set (replicate 28 (replicate 16 ?z)). length row = 16"
    by simp
  have n: "21 \<le> length (replicate 28 (replicate 16 ?z))" "28 \<le> length (replicate 28 (replicate 16 ?z))"
    by simp_all
  show ?thesis
    using PermuteMut_round_structure [OF st rows, of "value_chip babybear_modulus"]
      PermuteMut_round_structure [OF st rows, of "value_chip koalabear_modulus"] n
    by blast
qed

subsection \<open>Reductions in the S-box\<close>

text \<open>
  C4, as amended. \<open>sboxP\<close> calls \<open>ReduceSlow\<close> twice: once on the input, before the
  chain of native multiplications, and once on the final product; nothing is reduced
  and no bound is tracked in between. The BabyBear chain is two squarings and two
  multiplications, the KoalaBear chain one squaring and one multiplication. On the
  arithmetic of the specification the product is the 7th (3rd) power of the reduced
  input as an integer: it stays below the bound \<open>p ^ 7\<close> (\<open>p ^ 3\<close>) that the code declares
  for it, which is below the native modulus, so the reduced result is the power modulo
  \<open>p\<close>.
\<close>

theorem sboxP_reduces_input_and_product:
  fixes x :: "wire Variable" and v :: "int Variable"
  shows "Value (babybear_sboxP (recording_chip p) x) =
          (let r = ByReduceSlow (ByAddF (Value x) (Lit 0)) in
           ByReduceSlow (ByMul (ByMul (ByMul (ByMul r r) (ByMul r r)) (ByMul r r)) r))
       \<and> Value (koalabear_sboxP (recording_chip p) x) =
          (let r = ByReduceSlow (ByAddF (Value x) (Lit 0)) in
           ByReduceSlow (ByMul (ByMul r r) r))
       \<and> Value (babybear_sboxP_product (value_chip babybear_modulus) v)
            = ((Value v mod native_modulus) mod babybear_modulus) ^ 7
       \<and> Value (babybear_sboxP_product (value_chip babybear_modulus) v)
            < UpperBound (babybear_sboxP_product (value_chip babybear_modulus) v)
       \<and> UpperBound (babybear_sboxP_product (value_chip babybear_modulus) v) < native_modulus
       \<and> Value (babybear_sboxP (value_chip babybear_modulus) v)
            = ((Value v mod native_modulus) mod babybear_modulus) ^ 7 mod babybear_modulus
       \<and> Value (koalabear_sboxP_product (value_chip koalabear_modulus) v)
            = ((Value v mod native_modulus) mod koalabear_modulus) ^ 3
       \<and> Value (koalabear_sboxP_product (value_chip koalabear_modulus) v)
            < UpperBound (koalabear_sboxP_product (value_chip koalabear_modulus) v)
       \<and> UpperBound (koalabear_sboxP_product (value_chip koalabear_modulus) v) < native_modulus
       \<and> Value (koalabear_sboxP (value_chip koalabear_modulus) v)
            = ((Value v mod native_modulus) mod koalabear_modulus) ^ 3 mod koalabear_modulus"
proof -
  let ?b = "(Value v mod native_modulus) mod babybear_modulus"
  let ?k = "(Value v mod native_modulus) mod koalabear_modulus"
  have b: "0 \<le> ?b" "?b < babybear_modulus"
    by (simp_all add: babybear_modulus_def)
  have k: "0 \<le> ?k" "?k < koalabear_modulus"
    by (simp_all add: koalabear_modulus_def)
  have "?b ^ 7 < babybear_modulus ^ 7"
    using b by (intro power_strict_mono) simp_all
  then have bb: "?b ^ 7 < 2013265921 ^ 7"
    by (simp only: babybear_modulus_def)
  have "?k ^ 3 < koalabear_modulus ^ 3"
    using k by (intro power_strict_mono) simp_all
  then have kb: "?k ^ 3 < 2130706433 ^ 3"
    by (simp only: koalabear_modulus_def)
  have ub: "UpperBound (babybear_sboxP_product (value_chip babybear_modulus) v) = 2013265921 ^ 7"
    by (simp add: babybear_sboxP_product_def Let_def)
  have uk: "UpperBound (koalabear_sboxP_product (value_chip koalabear_modulus) v) = 2130706433 ^ 3"
    by (simp add: koalabear_sboxP_product_def Let_def)
  have nb: "(2013265921 :: int) ^ 7 < native_modulus"
    by (simp add: native_modulus_def)
  have nk: "(2130706433 :: int) ^ 3 < native_modulus"
    by (simp add: native_modulus_def)
  show ?thesis
    unfolding ub uk babybear_sboxP_product_value koalabear_sboxP_product_value
      babybear_sboxP_value koalabear_sboxP_value
      babybear_sboxP_recorded koalabear_sboxP_recorded
    using bb kb nb nk by (intro conjI) (rule refl | assumption)+
qed

text \<open>
  C4 as stated fails on the BabyBear chip: its second squaring, \<^verbatim>\<open>i4 := api.Mul(i2, i2)\<close>,
  squares the product \<^verbatim>\<open>i2\<close>, which no \<open>ReduceSlow\<close> has touched.
\<close>

theorem babybear_sboxP_squares_unreduced_product:
  "\<not> squarings_reduced
        (Value (babybear_sboxP (recording_chip babybear_modulus)
                  \<lparr>Value = Arg 0, UpperBound = babybear_modulus - 1\<rparr>))"
  by (simp add: babybear_sboxP_def babybear_sboxP_product_def recording_chip_def Let_def)

subsection \<open>The sponge\<close>

lemma length_fold_rounds:
  assumes "\<And>r s. length s = 16 \<Longrightarrow> length (g r s) = 16" "length st = 16"
  shows "length (fold g rs st) = 16"
  using assms(2) by (induction rs arbitrary: st) (simp_all add: assms(1))

lemma length_addRc [simp]: "length (addRc f st row) = length st"
  by (simp add: addRc_def)

lemma length_sbox [simp]: "length (sbox sboxP st) = length st"
  by (simp add: sbox_def)

lemma length_matmulInternal [simp]: "length (matmulInternal f st diag) = length st"
  by (simp add: matmulInternal_def Let_def)

lemma length_babybear_PermuteMut:
  assumes "length st = 16"
  shows "length (babybear_PermuteMut f rc st) = 16"
  unfolding babybear_PermuteMut_def Let_def
  by (intro length_fold_rounds length_externalLinearLayer assms)
     (simp_all add: babybear_diffusionPermuteMut_def)

lemma Updates_append:
  "Updates f rc p (xs @ ys) =
     (case Updates f rc p xs of Inl e \<Rightarrow> Inl e | Inr p' \<Rightarrow> Updates f rc p' ys)"
  by (induction xs arbitrary: p) (simp_all split: sum.splits)

lemma Updates_snoc:
  "Updates f rc p (xs @ [x]) =
     (case Updates f rc p xs of Inl e \<Rightarrow> Inl e | Inr p' \<Rightarrow> Update f rc p' x)"
  by (simp add: Updates_append split: sum.splits)

lemma Update_step:
  assumes "bufferCount p \<le> 14"
  shows "Update f rc p x =
    Inr (if bufferCount p = 14
         then \<lparr>State = babybear_PermuteMut f rc
                         ((State p)[bufferCount p := AddF f (State p ! bufferCount p) x]),
               bufferCount = 0, permutations = permutations p + 1\<rparr>
         else \<lparr>State = (State p)[bufferCount p := AddF f (State p ! bufferCount p) x],
               bufferCount = bufferCount p + 1, permutations = permutations p\<rparr>)"
  using assms by (cases p) (simp add: Update_def Let_def)

lemma Updates_invariant:
  "\<exists>p. Updates f rc (NewBabyBearChip f) xs = Inr p
       \<and> length (State p) = 16
       \<and> bufferCount p = length xs mod 15
       \<and> permutations p = length xs div 15"
proof (induction xs rule: rev_induct)
  case Nil
  show ?case by (simp add: NewBabyBearChip_def)
next
  case (snoc x xs)
  then obtain p where p: "Updates f rc (NewBabyBearChip f) xs = Inr p" "length (State p) = 16"
    "bufferCount p = length xs mod 15" "permutations p = length xs div 15"
    by blast
  have b: "bufferCount p \<le> 14" using p(3) by simp
  show ?case
  proof (cases "bufferCount p = 14")
    case True
    then have "Suc (length xs) mod 15 = 0" "Suc (length xs) div 15 = length xs div 15 + 1"
      using p(3) by (simp_all add: mod_Suc div_Suc)
    then show ?thesis
      using p True by (simp add: Updates_snoc Update_step [OF b] length_babybear_PermuteMut)
  next
    case False
    then have "Suc (length xs) mod 15 = length xs mod 15 + 1" "Suc (length xs) div 15 = length xs div 15"
      using p(3) by (simp_all add: mod_Suc div_Suc)
    then show ?thesis
      using p False by (simp add: Updates_snoc Update_step [OF b])
  qed
qed

lemma Updates_first_block:
  assumes "length xs \<le> 14"
  shows "Updates f rc (NewBabyBearChip f) xs =
           Inr \<lparr>State = map (AddF f (ZeroF f)) xs @ replicate (16 - length xs) (ZeroF f),
                bufferCount = length xs, permutations = 0\<rparr>"
  using assms
proof (induction xs rule: rev_induct)
  case Nil
  show ?case by (simp add: NewBabyBearChip_def numeral_eq_Suc)
next
  case (snoc x xs)
  let ?n = "length xs"
  let ?g = "AddF f (ZeroF f)"
  let ?st = "map ?g xs @ replicate (16 - ?n) (ZeroF f)"
  let ?p = "\<lparr>State = ?st, bufferCount = ?n, permutations = 0\<rparr>"
  have l: "?n \<le> 13" using snoc.prems by simp
  have ih: "Updates f rc (NewBabyBearChip f) xs = Inr ?p"
    using snoc.IH l by simp
  have "16 - ?n = Suc (15 - ?n)" using l by arith
  then have r: "replicate (16 - ?n) (ZeroF f) = ZeroF f # replicate (15 - ?n) (ZeroF f)"
    by simp
  have n: "?st ! ?n = ZeroF f"
    by (simp add: r nth_append)
  have u: "?st[?n := ?g x] = map ?g (xs @ [x]) @ replicate (15 - ?n) (ZeroF f)"
    by (simp add: r list_update_append)
  have b: "bufferCount ?p \<le> 14" "bufferCount ?p \<noteq> 14" using l by simp_all
  have "Update f rc ?p x = Inr \<lparr>State = ?st[?n := ?g x], bufferCount = ?n + 1, permutations = 0\<rparr>"
    using Update_step [OF b(1), of f rc x] b(2) n by simp
  then show ?case
    by (simp add: Updates_snoc ih u)
qed


lemma copy_of_state:
  "length st = 16 \<Longrightarrow> map (\<lambda>i. st ! i) [0..<16] = st"
  using map_nth [of st] by simp

lemma Finalize_step:
  assumes "bufferCount p \<le> 14" "length (State p) = 16"
  shows "Finalize f rc p =
    (let k = (if bufferCount p > 0 then bufferCount p else 0);
         padded = (State p)[k := AddF f (State p ! k) (OneF f)]
     in Inr (babybear_PermuteMut f rc padded,
             \<lparr>State = babybear_PermuteMut f rc padded,
              bufferCount = bufferCount p, permutations = permutations p + 1\<rparr>))"
proof -
  have c: "map (\<lambda>i. babybear_PermuteMut f rc st ! i) [0..<16] = babybear_PermuteMut f rc st"
    if "length st = 16" for st
    using that by (intro copy_of_state length_babybear_PermuteMut)
  obtain st k n where p: "p = \<lparr>State = st, bufferCount = k, permutations = n\<rparr>"
    by (cases p)
  have l: "length st = 16" and k: "k \<le> 14"
    using assms by (simp_all add: p)
  show ?thesis
  proof (cases "k > 0")
    case True
    then show ?thesis
      using k c [of "st[k := AddF f (st ! k) (OneF f)]"] l
      by (simp add: Finalize_def Let_def p)
  next
    case False
    then show ?thesis
      using c [of "st[0 := AddF f (st ! 0) (OneF f)]"] l
      by (simp add: Finalize_def Let_def p)
  qed
qed

lemma Updates_full_block:
  assumes "length ys = 15"
  shows "Updates f rc (NewBabyBearChip f) ys =
           Inr \<lparr>State = babybear_PermuteMut f rc (map (AddF f (ZeroF f)) ys @ [ZeroF f]),
                bufferCount = 0, permutations = 1\<rparr>"
proof -
  obtain xs x where ys: "ys = xs @ [x]" and l: "length xs = 14"
    using assms by (cases ys rule: rev_cases) auto
  let ?g = "AddF f (ZeroF f)"
  let ?st = "map ?g xs @ replicate (16 - length xs) (ZeroF f)"
  let ?p = "\<lparr>State = ?st, bufferCount = length xs, permutations = 0\<rparr>"
  have fb: "Updates f rc (NewBabyBearChip f) xs = Inr ?p"
    using Updates_first_block [of xs f rc] l by simp
  have r: "replicate (16 - length xs) (ZeroF f) = [ZeroF f, ZeroF f]"
    using l by (simp add: numeral_eq_Suc)
  have n: "?st ! 14 = ZeroF f"
    using l by (simp add: r nth_append)
  have u: "?st[14 := ?g x] = map ?g ys @ [ZeroF f]"
    using l by (simp add: list_update_append ys numeral_2_eq_2)
  have b: "bufferCount ?p \<le> 14" "bufferCount ?p = 14" using l by simp_all
  have "Update f rc ?p x =
          Inr \<lparr>State = babybear_PermuteMut f rc (?st[14 := ?g x]), bufferCount = 0, permutations = 1\<rparr>"
    using Update_step [OF b(1), of f rc x] b(2) n l by simp
  then show ?thesis
    unfolding u by (simp add: ys Updates_snoc fb)
qed

text \<open>
  C3. After any sequence of \<open>Update\<close> calls on a fresh chip, the next \<open>Update\<close> adds its
  input (with \<open>AddF\<close>) into the lane at the buffer position; it permutes, resets the position
  to 0 and counts one more permutation exactly when the advanced position is 15, and
  otherwise only advances the position. \<open>Finalize\<close> adds \<open>One\<close> into the lane at the
  position, which is lane 0 when the buffer is empty, and then permutes once. After 15 \<open>Update\<close> calls on a fresh chip the
  chip has permuted once, the position is 0, and \<open>Finalize\<close> adds \<open>One\<close> to lane 0 and
  permutes a second time: two permutations in all. \<open>Finalize\<close> on a fresh chip adds
  \<open>One\<close> to lane 0 of the zero state and permutes once.
\<close>

theorem sponge_absorbs_and_permutes_on_full_block:
  "(\<exists>p. Updates f rc (NewBabyBearChip f) xs = Inr p
       \<and> Update f rc p x =
           (let absorbed = (State p)[bufferCount p := AddF f (State p ! bufferCount p) x]
            in Inr (if bufferCount p + 1 = 15
                    then \<lparr>State = babybear_PermuteMut f rc absorbed, bufferCount = 0,
                          permutations = permutations p + 1\<rparr>
                    else \<lparr>State = absorbed, bufferCount = bufferCount p + 1,
                          permutations = permutations p\<rparr>))
       \<and> Finalize f rc p =
           (let padded = (State p)[bufferCount p := AddF f (State p ! bufferCount p) (OneF f)]
            in Inr (babybear_PermuteMut f rc padded,
                    \<lparr>State = babybear_PermuteMut f rc padded, bufferCount = bufferCount p,
                     permutations = permutations p + 1\<rparr>)))
   \<and> (length ys = 15 \<longrightarrow>
        (\<exists>p res p'. Updates f rc (NewBabyBearChip f) ys = Inr p
           \<and> State p = babybear_PermuteMut f rc (map (AddF f (ZeroF f)) ys @ [ZeroF f])
           \<and> bufferCount p = 0 \<and> permutations p = 1
           \<and> Finalize f rc p = Inr (res, p')
           \<and> res = babybear_PermuteMut f rc ((State p)[0 := AddF f (State p ! 0) (OneF f)])
           \<and> State p' = res \<and> permutations p' = 2))
   \<and> (\<exists>res p'. Finalize f rc (NewBabyBearChip f) = Inr (res, p')
           \<and> res = babybear_PermuteMut f rc (AddF f (ZeroF f) (OneF f) # replicate 15 (ZeroF f))
           \<and> State p' = res \<and> permutations p' = 1)"
proof (intro conjI impI)
  obtain p where p: "Updates f rc (NewBabyBearChip f) xs = Inr p" "length (State p) = 16"
    "bufferCount p = length xs mod 15"
    using Updates_invariant [of f rc xs] by blast
  have b: "bufferCount p \<le> 14" using p(3) by simp
  have u: "Update f rc p x =
           (let absorbed = (State p)[bufferCount p := AddF f (State p ! bufferCount p) x]
            in Inr (if bufferCount p + 1 = 15
                    then \<lparr>State = babybear_PermuteMut f rc absorbed, bufferCount = 0,
                          permutations = permutations p + 1\<rparr>
                    else \<lparr>State = absorbed, bufferCount = bufferCount p + 1,
                          permutations = permutations p\<rparr>))"
    using Update_step [OF b, of f rc x] by (simp add: Let_def)
  have k: "(if bufferCount p > 0 then bufferCount p else 0) = bufferCount p"
    by simp
  have fin: "Finalize f rc p =
           (let padded = (State p)[bufferCount p := AddF f (State p ! bufferCount p) (OneF f)]
            in Inr (babybear_PermuteMut f rc padded,
                    \<lparr>State = babybear_PermuteMut f rc padded, bufferCount = bufferCount p,
                     permutations = permutations p + 1\<rparr>))"
    using Finalize_step [OF b p(2), of f rc] unfolding k by (simp only: Let_def)
  from p(1) u fin
  show "\<exists>p. Updates f rc (NewBabyBearChip f) xs = Inr p
       \<and> Update f rc p x =
           (let absorbed = (State p)[bufferCount p := AddF f (State p ! bufferCount p) x]
            in Inr (if bufferCount p + 1 = 15
                    then \<lparr>State = babybear_PermuteMut f rc absorbed, bufferCount = 0,
                          permutations = permutations p + 1\<rparr>
                    else \<lparr>State = absorbed, bufferCount = bufferCount p + 1,
                          permutations = permutations p\<rparr>))
       \<and> Finalize f rc p =
           (let padded = (State p)[bufferCount p := AddF f (State p ! bufferCount p) (OneF f)]
            in Inr (babybear_PermuteMut f rc padded,
                    \<lparr>State = babybear_PermuteMut f rc padded, bufferCount = bufferCount p,
                     permutations = permutations p + 1\<rparr>))"
    by blast
next
  assume l: "length ys = 15"
  let ?st = "babybear_PermuteMut f rc (map (AddF f (ZeroF f)) ys @ [ZeroF f])"
  let ?p = "\<lparr>State = ?st, bufferCount = 0, permutations = 1\<rparr>"
  have len: "length ?st = 16"
    using l by (intro length_babybear_PermuteMut) simp
  have "Finalize f rc ?p =
          Inr (babybear_PermuteMut f rc (?st[0 := AddF f (?st ! 0) (OneF f)]),
               \<lparr>State = babybear_PermuteMut f rc (?st[0 := AddF f (?st ! 0) (OneF f)]),
                bufferCount = 0, permutations = 2\<rparr>)"
    using Finalize_step [of ?p f rc] len by (simp add: Let_def)
  then show "\<exists>p res p'. Updates f rc (NewBabyBearChip f) ys = Inr p
           \<and> State p = babybear_PermuteMut f rc (map (AddF f (ZeroF f)) ys @ [ZeroF f])
           \<and> bufferCount p = 0 \<and> permutations p = 1
           \<and> Finalize f rc p = Inr (res, p')
           \<and> res = babybear_PermuteMut f rc ((State p)[0 := AddF f (State p ! 0) (OneF f)])
           \<and> State p' = res \<and> permutations p' = 2"
    using Updates_full_block [OF l, of f rc] by simp
next
  show "\<exists>res p'. Finalize f rc (NewBabyBearChip f) = Inr (res, p')
           \<and> res = babybear_PermuteMut f rc (AddF f (ZeroF f) (OneF f) # replicate 15 (ZeroF f))
           \<and> State p' = res \<and> permutations p' = 1"
    using Finalize_step [of "NewBabyBearChip f" f rc]
    by (simp add: NewBabyBearChip_def Let_def numeral_eq_Suc)
qed

theorem sponge_absorbs_and_permutes_on_full_block_witness:
  "\<exists>p res p'.
      Updates (value_chip babybear_modulus) (replicate 21 (replicate 16 \<lparr>Value = 0, UpperBound = 0\<rparr>))
        (NewBabyBearChip (value_chip babybear_modulus))
        (replicate 15 \<lparr>Value = 1, UpperBound = 1\<rparr>) = Inr p
      \<and> bufferCount p = 0 \<and> permutations p = 1
      \<and> Finalize (value_chip babybear_modulus)
            (replicate 21 (replicate 16 \<lparr>Value = 0, UpperBound = 0\<rparr>)) p = Inr (res, p')
      \<and> State p' = res \<and> permutations p' = 2"
proof -
  let ?v = "\<lparr>Value = 1 :: int, UpperBound = 1\<rparr>"
  let ?rc = "replicate 21 (replicate 16 \<lparr>Value = 0 :: int, UpperBound = 0\<rparr>)"
  have l: "length (replicate 15 ?v) = 15"
    by simp
  show ?thesis
    using sponge_absorbs_and_permutes_on_full_block
      [of "value_chip babybear_modulus" ?rc "[]" ?v "replicate 15 ?v"] l
    by blast
qed

text \<open>
  C10. After any sequence of \<open>Update\<close> calls on a fresh chip no index has been out of
  range and the buffer position is at most 14; the next \<open>Update\<close> leaves it at most 14.
  The lane that \<open>Update\<close> writes is the one at the position, and the lane that \<open>Finalize\<close>
  writes is the one at the position or lane 0: both are among lanes 0 to 14, and lane 15
  of the state handed to the permutation is lane 15 of the state before the call.
\<close>

theorem buffer_position_stays_below_rate:
  "\<exists>p. Updates f rc (NewBabyBearChip f) xs = Inr p
      \<and> bufferCount p \<le> 14 \<and> length (State p) = 16
      \<and> (let absorbed = (State p)[bufferCount p := AddF f (State p ! bufferCount p) x]
         in absorbed ! 15 = State p ! 15
            \<and> (\<exists>p'. Update f rc p x = Inr p' \<and> bufferCount p' \<le> 14
                  \<and> State p' = (if bufferCount p = 14 then babybear_PermuteMut f rc absorbed
                                else absorbed)))
      \<and> (let k = (if bufferCount p > 0 then bufferCount p else 0);
             padded = (State p)[k := AddF f (State p ! k) (OneF f)]
         in k \<le> 14 \<and> padded ! 15 = State p ! 15
            \<and> (\<exists>p'. Finalize f rc p = Inr (babybear_PermuteMut f rc padded, p')))"
proof -
  obtain p where p: "Updates f rc (NewBabyBearChip f) xs = Inr p" "length (State p) = 16"
    "bufferCount p = length xs mod 15"
    using Updates_invariant [of f rc xs] by blast
  have b: "bufferCount p \<le> 14" using p(3) by simp
  have u: "Update f rc p x =
    Inr (if bufferCount p = 14
         then \<lparr>State = babybear_PermuteMut f rc
                         ((State p)[bufferCount p := AddF f (State p ! bufferCount p) x]),
               bufferCount = 0, permutations = permutations p + 1\<rparr>
         else \<lparr>State = (State p)[bufferCount p := AddF f (State p ! bufferCount p) x],
               bufferCount = bufferCount p + 1, permutations = permutations p\<rparr>)"
    by (rule Update_step [OF b])
  have fin: "Finalize f rc p =
    (let k = (if bufferCount p > 0 then bufferCount p else 0);
         padded = (State p)[k := AddF f (State p ! k) (OneF f)]
     in Inr (babybear_PermuteMut f rc padded,
             \<lparr>State = babybear_PermuteMut f rc padded,
              bufferCount = bufferCount p, permutations = permutations p + 1\<rparr>))"
    by (rule Finalize_step [OF b p(2)])
  show ?thesis
    apply (rule exI [of _ p])
    using p(1,2) b unfolding u fin by (auto simp: Let_def)
qed


subsection \<open>The encoder\<close>

lemma Encode_Bytes_1: "Encode (Bytes (Suc 0)) = ''0x01''"
  by (simp add: Encode_def hex_Encode_def hextable_def Bytes.simps)

lemma Encode_Bytes_2: "Encode (Bytes 2) = ''0x02''"
  by (simp add: Encode_def hex_Encode_def hextable_def Bytes.simps)

lemma Encode_Bytes_G2_X_A1:
  "Encode (Bytes 11559732032986387107991004021392285783925812861821192530917403151452391805634)
     = ''0x198e9393920d483a7260bfb731fb5d25f1aa493335a9e71297e485b7aef312c2''"
  by (simp add: Encode_def hex_Encode_def hextable_def Bytes.simps)

lemma Encode_Bytes_G2_X_A0:
  "Encode (Bytes 10857046999023057135944570762232829481370756359578518086990519993285655852781)
     = ''0x1800deef121f1e76426a00665e5c4479674322d4f75edadd46debd5cd992f6ed''"
  by (simp add: Encode_def hex_Encode_def hextable_def Bytes.simps)

lemma Encode_Bytes_G2_Y_A1:
  "Encode (Bytes 4082367875863433681332203403145435568316851327593401208105741076214120093531)
     = ''0x090689d0585ff075ec9e99ad690c3395bc4b313370b38ef355acdadcd122975b''"
  by (simp add: Encode_def hex_Encode_def hextable_def Bytes.simps)

lemma Encode_Bytes_G2_Y_A0:
  "Encode (Bytes 8495653923123431417604973247489272438418190587263600148770280649306958101930)
     = ''0x12c85ea5db8c6deb4aab71808dcb408fe3d1e7690c43d37b4ce6cc0166fa7daa''"
  by (simp add: Encode_def hex_Encode_def hextable_def Bytes.simps)

lemma FillBytes_9:
  "FillBytes 9 32 = Inr [0, 0, 0, 0, 0, 0, 0, 0, 0, 0, 0, 0, 0, 0, 0, 0,
                         0, 0, 0, 0, 0, 0, 0, 0, 0, 0, 0, 0, 0, 0, 0, 9]"
proof -
  have b: "Bytes 9 = [9]"
    by (simp add: Bytes.simps)
  have r: "replicate 31 (0 :: byte) = [0, 0, 0, 0, 0, 0, 0, 0, 0, 0, 0, 0, 0, 0, 0, 0,
                                      0, 0, 0, 0, 0, 0, 0, 0, 0, 0, 0, 0, 0, 0, 0]"
    by (simp add: eval_nat_numeral)
  show ?thesis
    by (simp add: FillBytes_def b r)
qed

lemma Encode_FillBytes_9:
  "Encode [0, 0, 0, 0, 0, 0, 0, 0, 0, 0, 0, 0, 0, 0, 0, 0,
           0, 0, 0, 0, 0, 0, 0, 0, 0, 0, 0, 0, 0, 0, 0, 9]
     = ''0x0000000000000000000000000000000000000000000000000000000000000009''"
  by (simp add: Encode_def hex_Encode_def hextable_def)

text \<open>
  C5. The claim: every value of the string is the hex form of exactly 32 big-endian
  bytes, and the string has no trailing separator. The code pads only the witness
  elements to 32 bytes (\<^verbatim>\<open>FillBytes\<close> into a 32-byte buffer); the coordinates of the proof
  are encoded from \<^verbatim>\<open>Bytes()\<close>, which has no leading zero bytes. On the proof made of the
  group generators, with the one public witness element 9, the coordinates 1 and 2 of
  \<open>A\<close> and \<open>C\<close> come out as the one-byte fields 0x01 and 0x02, next to the 32-byte fields
  of \<open>B\<close> and of the witness element. The comma after \<open>C.y\<close> is written whatever follows:
  with an empty witness vector it ends the string.
\<close>

theorem GetAggOnChainProof_drops_leading_zero_bytes:
  "GetAggOnChainProof generator_proof [9] =
     Inr (''0x01,0x02,''
          @ ''0x198e9393920d483a7260bfb731fb5d25f1aa493335a9e71297e485b7aef312c2,''
          @ ''0x1800deef121f1e76426a00665e5c4479674322d4f75edadd46debd5cd992f6ed,''
          @ ''0x090689d0585ff075ec9e99ad690c3395bc4b313370b38ef355acdadcd122975b,''
          @ ''0x12c85ea5db8c6deb4aab71808dcb408fe3d1e7690c43d37b4ce6cc0166fa7daa,''
          @ ''0x01,0x02,''
          @ ''0x0000000000000000000000000000000000000000000000000000000000000009'')
   \<and> GetAggOnChainProof
        \<lparr>Ar = \<lparr>G1_X = 1, G1_Y = 2\<rparr>,
         Bs = \<lparr>G2_X = \<lparr>A0 = 4, A1 = 3\<rparr>, G2_Y = \<lparr>A0 = 6, A1 = 5\<rparr>\<rparr>,
         Krs = \<lparr>G1_X = 7, G1_Y = 8\<rparr>\<rparr> []
       = Inr ''0x01,0x02,0x03,0x04,0x05,0x06,0x07,0x08,''"
proof
  show "GetAggOnChainProof generator_proof [9] =
     Inr (''0x01,0x02,''
          @ ''0x198e9393920d483a7260bfb731fb5d25f1aa493335a9e71297e485b7aef312c2,''
          @ ''0x1800deef121f1e76426a00665e5c4479674322d4f75edadd46debd5cd992f6ed,''
          @ ''0x090689d0585ff075ec9e99ad690c3395bc4b313370b38ef355acdadcd122975b,''
          @ ''0x12c85ea5db8c6deb4aab71808dcb408fe3d1e7690c43d37b4ce6cc0166fa7daa,''
          @ ''0x01,0x02,''
          @ ''0x0000000000000000000000000000000000000000000000000000000000000009'')"
    by (simp add: GetAggOnChainProof_def generator_proof_def ExportProof_def Let_def
        Encode_Bytes_1 Encode_Bytes_2 Encode_Bytes_G2_X_A1 Encode_Bytes_G2_X_A0
        Encode_Bytes_G2_Y_A1 Encode_Bytes_G2_Y_A0 FillBytes_9 Encode_FillBytes_9)
  show "GetAggOnChainProof
        \<lparr>Ar = \<lparr>G1_X = 1, G1_Y = 2\<rparr>,
         Bs = \<lparr>G2_X = \<lparr>A0 = 4, A1 = 3\<rparr>, G2_Y = \<lparr>A0 = 6, A1 = 5\<rparr>\<rparr>,
         Krs = \<lparr>G1_X = 7, G1_Y = 8\<rparr>\<rparr> []
       = Inr ''0x01,0x02,0x03,0x04,0x05,0x06,0x07,0x08,''"
    by code_simp
qed

subsection \<open>Self-verification in Prove\<close>

text \<open>
  C6. When the generated proof fails verification, \<open>Prove\<close> returns the error
  "failed to verify proof" having called only \<^verbatim>\<open>groth16.Prove\<close> and \<^verbatim>\<open>groth16.Verify\<close>:
  the proof is neither encoded nor written. Verification is the call that follows proof
  generation. Conversely the proof is encoded or written, or \<open>Prove\<close> returns nil, only
  when a proof was generated and verified.
\<close>

theorem Prove_rejects_unverified_proof:
  "(groth16_Prove_result w = Inr pf \<and> groth16_Verify_result w pf = Some e \<longrightarrow>
      Prove w pubWitness =
        (Inr (Some (''failed to verify proof: '' @ e)), [Groth16Prove, Groth16Verify]))
   \<and> (groth16_Prove_result w = Inr pf \<longrightarrow>
        take 2 (snd (Prove w pubWitness)) = [Groth16Prove, Groth16Verify])
   \<and> (EncodeProof \<in> set (snd (Prove w pubWitness))
        \<or> WriteProofFile res \<in> set (snd (Prove w pubWitness))
        \<or> fst (Prove w pubWitness) = Inr None \<longrightarrow>
        (\<exists>pf'. groth16_Prove_result w = Inr pf' \<and> groth16_Verify_result w pf' = None))"
  by (auto simp: Prove_def split: sum.splits option.splits)

theorem Prove_rejects_unverified_proof_witness:
  "Prove unverifiable [9] =
     (Inr (Some ''failed to verify proof: pairing doesn't match''), [Groth16Prove, Groth16Verify])"
  using Prove_rejects_unverified_proof
    [of unverifiable "\<lparr>Ar = \<lparr>G1_X = 1, G1_Y = 2\<rparr>,
            Bs = \<lparr>G2_X = \<lparr>A0 = 4, A1 = 3\<rparr>, G2_Y = \<lparr>A0 = 6, A1 = 5\<rparr>\<rparr>,
            Krs = \<lparr>G1_X = 7, G1_Y = 8\<rparr>\<rparr>" "''pairing doesn't match''" "[9]"]
  by (simp add: unverifiable_def)

subsection \<open>The tasks of BabyBearProve\<close>

lemma pending_eq_0 [simp]: "pending t = 0 \<longleftrightarrow> t = Ended"
  by (cases t) simp_all

lemma invariant_initial: "invariant w left (initial left)"
  by (simp add: invariant_def initial_def)

lemma invariant_main_step: "invariant w left s \<Longrightarrow> invariant w left (main_step w s)"
  by (cases "pc s")
     (auto simp: invariant_def fail_or_def main_calls_succeed_def reaches_Prove_def
        sequential_result_def split: option.splits if_splits)

lemma invariant_readKey_step: "invariant w left s \<Longrightarrow> invariant w left (readKey_step w s)"
  by (cases "readKey s"; cases "pc s")
     (auto simp: invariant_def split: option.splits if_splits)

lemma invariant_compile_step: "invariant w left s \<Longrightarrow> invariant w left (compile_step w s)"
  by (cases "compile s"; cases "pc s")
     (auto simp: invariant_def main_calls_succeed_def split: option.splits if_splits)

lemma invariant_step: "invariant w left s \<Longrightarrow> invariant w left (step w t s)"
  by (cases t) (simp_all add: invariant_main_step invariant_readKey_step invariant_compile_step
      del: main_step.simps readKey_step.simps compile_step.simps)

lemma invariant_fold: "invariant w left s \<Longrightarrow> invariant w left (fold (step w) schedule s)"
  by (induction schedule arbitrary: s) (simp_all add: invariant_step del: step.simps)

lemma invariant_BabyBearProve: "invariant w left (BabyBearProve w left schedule)"
  unfolding BabyBearProve_def by (rule invariant_fold [OF invariant_initial])

lemma rank_12: "rank p = 12 \<longleftrightarrow> (\<exists>err. p = Returned err)"
  by (cases p) simp_all

lemma rank_le_12: "rank p \<le> 12"
  by (cases p) simp_all

lemma rank_fail_or: "rank (fail_or msg err next) = (if err = None then rank next else 12)"
  by (simp add: fail_or_def split: option.splits)

lemma main_step_before_wait:
  "rank (pc s) < 8 \<Longrightarrow> rank (pc s) < rank (pc (main_step w s))"
  by (cases "pc s") (simp_all add: rank_fail_or split: option.splits)

lemma main_step_from_wait:
  "8 \<le> rank (pc s) \<Longrightarrow> 8 \<le> rank (pc (main_step w s))"
  by (cases "pc s") (simp_all add: rank_fail_or split: option.splits)

lemma main_steps_reach_wait:
  "min 8 (k + rank (pc s)) \<le> rank (pc (fold (step w) (replicate k MainThread) s))"
proof (induction k arbitrary: s)
  case 0
  show ?case by simp
next
  case (Suc k)
  have "min 8 (Suc (rank (pc s))) \<le> rank (pc (main_step w s))"
    using main_step_before_wait [of s w] main_step_from_wait [of s w]
    by (cases "rank (pc s) < 8") simp_all
  then have "min 8 (Suc k + rank (pc s)) \<le> min 8 (k + rank (pc (main_step w s)))"
    by simp
  also have "\<dots> \<le> rank (pc (fold (step w) (replicate k MainThread) (main_step w s)))"
    by (rule Suc.IH)
  finally show ?case
    by (simp del: main_step.simps)
qed

lemma tasks_end:
  assumes "invariant w left s" "8 \<le> rank (pc s)"
  shows "pc (fold (step w) [ReadKeyTask, ReadKeyTask, CompileTask, CompileTask] s) = pc s
       \<and> (rank (pc s) < 12 \<longrightarrow>
            loadLock (fold (step w) [ReadKeyTask, ReadKeyTask, CompileTask, CompileTask] s) = left)"
  using assms
  by (cases "pc s"; cases "readKey s"; cases "compile s")
     (auto simp: invariant_def split: option.splits)

lemma main_step_after_join:
  assumes "8 \<le> rank (pc s)" "rank (pc s) < 12" "loadLock s = 0"
  shows "rank (pc s) < rank (pc (main_step w s)) \<and> loadLock (main_step w s) = 0"
  using assms by (cases "pc s") (simp_all add: rank_fail_or split: option.splits)

lemma main_step_returned:
  "rank (pc s) = 12 \<Longrightarrow> rank (pc (main_step w s)) = 12"
  by (cases "pc s") simp_all

lemma main_steps_return:
  assumes "8 \<le> rank (pc s)" "rank (pc s) < 12 \<longrightarrow> loadLock s = 0"
  shows "min 12 (k + rank (pc s)) \<le> rank (pc (fold (step w) (replicate k MainThread) s))"
  using assms
proof (induction k arbitrary: s)
  case 0
  show ?case by simp
next
  case (Suc k)
  let ?s = "main_step w s"
  have a: "min 12 (Suc (rank (pc s))) \<le> rank (pc ?s)"
    and b: "8 \<le> rank (pc ?s)" and c: "rank (pc ?s) < 12 \<longrightarrow> loadLock ?s = 0"
    using main_step_after_join [of s w] main_step_returned [of s w] Suc.prems rank_le_12 [of "pc s"]
    by (cases "rank (pc s) < 12"; simp del: main_step.simps)+
  have "min 12 (Suc k + rank (pc s)) \<le> min 12 (k + rank (pc ?s))"
    using a by simp
  also have "\<dots> \<le> rank (pc (fold (step w) (replicate k MainThread) ?s))"
    by (rule Suc.IH [OF b c])
  finally show ?case
    by (simp del: main_step.simps)
qed

lemma completion_returns:
  assumes "invariant w 0 s"
  shows "\<exists>err. pc (fold (step w) completion s) = Returned err"
proof -
  let ?s1 = "fold (step w) (replicate 8 MainThread) s"
  let ?s2 = "fold (step w) [ReadKeyTask, ReadKeyTask, CompileTask, CompileTask] ?s1"
  let ?s3 = "fold (step w) (replicate 4 MainThread) ?s2"
  have i1: "invariant w 0 ?s1" using assms by (rule invariant_fold)
  have r1: "8 \<le> rank (pc ?s1)"
    using main_steps_reach_wait [of 8 s w] by simp
  have t: "pc ?s2 = pc ?s1" "rank (pc ?s1) < 12 \<longrightarrow> loadLock ?s2 = 0"
    using tasks_end [OF i1 r1] by blast+
  have "min 12 (4 + rank (pc ?s2)) \<le> rank (pc ?s3)"
    by (rule main_steps_return) (use t r1 in simp_all)
  then have "12 \<le> rank (pc ?s3)"
    using r1 t(1) by simp
  then have "rank (pc ?s3) = 12"
    using rank_le_12 [of "pc ?s3"] by simp
  then show ?thesis
    by (simp add: rank_12 completion_def)
qed

lemma invariant_returned:
  assumes "invariant w left s" "pc s = Returned err"
  shows "err = sequential_result w"
    and "proved_with s = (if reaches_Prove w then Some (True, True) else None)"
    and "main_calls_succeed w \<Longrightarrow> left = 0 \<and> readKey s = Ended \<and> compile s = Ended"
  using assms by (simp_all add: invariant_def)

lemma failed_task_is_an_error:
  "ReadProvingKey_result w \<noteq> None \<or> Compile_result w \<noteq> None \<Longrightarrow>
     sequential_result w \<noteq> None \<and> \<not> reaches_Prove w"
  by (auto simp: sequential_result_def reaches_Prove_def split: option.splits)

lemma invariant_not_returned:
  assumes "invariant w left s" "rank (pc s) < 12"
  shows "proved_with s = None"
  using assms by (cases "pc s") (simp_all add: invariant_def)

lemma invariant_after_join:
  assumes "invariant w left s" "after_join (pc s)"
  shows "left = 0 \<and> readKey s = Ended \<and> compile s = Ended \<and> loadLock s = 0"
  using assms by (cases "pc s") (simp_all add: invariant_def)

lemma invariant_blocked:
  assumes "invariant w left s" "0 < left" "main_calls_succeed w"
  shows "rank (pc s) \<le> 8 \<and> proved_with s = None"
  using assms by (cases "pc s") (simp_all add: invariant_def)

text \<open>
  C7. In every state that any schedule reaches, whatever counter the call found: when the
  main thread waits, both tasks have been started; once it is past \<^verbatim>\<open>loadLock.Wait()\<close>,
  both tasks have ended and the counter is 0; \<^verbatim>\<open>Prove\<close> is only ever called with the
  proving key read and the constraint system compiled by this call, both without error;
  a returned result is the result of the sequential reading, so if the key read or the
  compilation fails it is an error and \<^verbatim>\<open>Prove\<close> has not been called. In a call that
  finds the counter at 0, as the first call of a process does, every schedule extends to
  one on which the call returns that result, having called \<^verbatim>\<open>Prove\<close> after both tasks
  ended exactly when no call failed. In a call that finds a counter above 0 the main
  thread never gets past \<^verbatim>\<open>Wait\<close>.
\<close>

theorem BabyBearProve_joins_before_proving:
  "(pc (BabyBearProve w left schedule) = AtWait \<longrightarrow>
       readKey (BabyBearProve w left schedule) \<noteq> NotStarted
     \<and> compile (BabyBearProve w left schedule) \<noteq> NotStarted)
   \<and> (after_join (pc (BabyBearProve w left schedule)) \<longrightarrow>
       readKey (BabyBearProve w left schedule) = Ended
     \<and> compile (BabyBearProve w left schedule) = Ended
     \<and> loadLock (BabyBearProve w left schedule) = 0)
   \<and> (proved_with (BabyBearProve w left schedule) \<noteq> None \<longrightarrow>
       proved_with (BabyBearProve w left schedule) = Some (True, True)
     \<and> ReadProvingKey_result w = None \<and> Compile_result w = None)
   \<and> (pc (BabyBearProve w left schedule) = Returned err \<longrightarrow>
       err = sequential_result w
     \<and> proved_with (BabyBearProve w left schedule)
          = (if reaches_Prove w then Some (True, True) else None))
   \<and> (pc (BabyBearProve w left schedule) = Returned err
       \<and> (ReadProvingKey_result w \<noteq> None \<or> Compile_result w \<noteq> None) \<longrightarrow>
       err \<noteq> None \<and> proved_with (BabyBearProve w left schedule) = None)
   \<and> (0 < left \<and> main_calls_succeed w \<longrightarrow>
       rank (pc (BabyBearProve w left schedule)) \<le> 8
     \<and> proved_with (BabyBearProve w left schedule) = None)
   \<and> pc (BabyBearProve w 0 (schedule @ completion)) = Returned (sequential_result w)
   \<and> proved_with (BabyBearProve w 0 (schedule @ completion))
        = (if reaches_Prove w then Some (True, True) else None)
   \<and> (main_calls_succeed w \<longrightarrow>
       readKey (BabyBearProve w 0 (schedule @ completion)) = Ended
     \<and> compile (BabyBearProve w 0 (schedule @ completion)) = Ended)"
proof -
  let ?s = "BabyBearProve w left schedule"
  let ?t = "BabyBearProve w 0 (schedule @ completion)"
  have i: "invariant w left ?s" by (rule invariant_BabyBearProve)
  have j: "invariant w 0 ?t" by (rule invariant_BabyBearProve)
  have a: "pc ?s = AtWait \<longrightarrow> readKey ?s \<noteq> NotStarted \<and> compile ?s \<noteq> NotStarted"
    using i by (auto simp: invariant_def)
  have b: "after_join (pc ?s) \<longrightarrow> readKey ?s = Ended \<and> compile ?s = Ended \<and> loadLock ?s = 0"
    using invariant_after_join [OF i] by blast
  have d: "pc ?s = Returned err \<longrightarrow>
             err = sequential_result w
           \<and> proved_with ?s = (if reaches_Prove w then Some (True, True) else None)"
    using invariant_returned(1,2) [OF i] by blast
  have c: "proved_with ?s \<noteq> None \<longrightarrow>
             proved_with ?s = Some (True, True)
           \<and> ReadProvingKey_result w = None \<and> Compile_result w = None"
  proof
    assume p: "proved_with ?s \<noteq> None"
    then have "\<not> rank (pc ?s) < 12"
      using invariant_not_returned [OF i] by auto
    then have "rank (pc ?s) = 12"
      using rank_le_12 [of "pc ?s"] by simp
    then obtain e where "pc ?s = Returned e"
      by (auto simp: rank_12)
    then have "proved_with ?s = (if reaches_Prove w then Some (True, True) else None)"
      by (rule invariant_returned(2) [OF i])
    with p show "proved_with ?s = Some (True, True)
           \<and> ReadProvingKey_result w = None \<and> Compile_result w = None"
      by (simp add: reaches_Prove_def split: if_splits)
  qed
  have e: "pc ?s = Returned err \<and> (ReadProvingKey_result w \<noteq> None \<or> Compile_result w \<noteq> None)
             \<longrightarrow> err \<noteq> None \<and> proved_with ?s = None"
    using d failed_task_is_an_error [of w] by auto
  have f: "0 < left \<and> main_calls_succeed w \<longrightarrow> rank (pc ?s) \<le> 8 \<and> proved_with ?s = None"
    using invariant_blocked [OF i] by blast
  obtain r where r: "pc ?t = Returned r"
    using completion_returns [OF invariant_BabyBearProve [of w 0 schedule]]
    by (auto simp: BabyBearProve_def)
  have g: "pc ?t = Returned (sequential_result w)"
    using invariant_returned(1) [OF j r] r by simp
  have h: "proved_with ?t = (if reaches_Prove w then Some (True, True) else None)"
    by (rule invariant_returned(2) [OF j r])
  have k: "main_calls_succeed w \<longrightarrow> readKey ?t = Ended \<and> compile ?t = Ended"
    using invariant_returned(3) [OF j r] by blast
  show ?thesis
    using a b c d e f g h k by blast
qed

theorem BabyBearProve_joins_before_proving_witness:
  "pc (BabyBearProve all_calls_succeed 0 completion) = Returned None
   \<and> proved_with (BabyBearProve all_calls_succeed 0 completion) = Some (True, True)
   \<and> readKey (BabyBearProve all_calls_succeed 0 completion) = Ended
   \<and> compile (BabyBearProve all_calls_succeed 0 completion) = Ended
   \<and> pc (BabyBearProve all_calls_succeed 0 (take 13 completion)) = AtCheckCompileErr
   \<and> loadLock (BabyBearProve all_calls_succeed 0 (take 13 completion)) = 0
   \<and> pc (BabyBearProve key_missing 0 completion) =
       Returned (Some ''fail to read reproving key: open ./data/vm_pk: no such file or directory'')
   \<and> proved_with (BabyBearProve key_missing 0 completion) = None
   \<and> rank (pc (BabyBearProve all_calls_succeed 1 completion)) \<le> 8"
proof -
  have ok: "main_calls_succeed all_calls_succeed" "reaches_Prove all_calls_succeed"
    "sequential_result all_calls_succeed = None"
    by (simp_all add: main_calls_succeed_def reaches_Prove_def sequential_result_def
        all_calls_succeed_def)
  have km: "ReadProvingKey_result key_missing \<noteq> None"
    "sequential_result key_missing =
       Some ''fail to read reproving key: open ./data/vm_pk: no such file or directory''"
    by (simp_all add: sequential_result_def key_missing_def)
  have aj: "pc (BabyBearProve all_calls_succeed 0 (take 13 completion)) = AtCheckCompileErr"
    by (simp add: BabyBearProve_def completion_def all_calls_succeed_def initial_def fail_or_def
        numeral_eq_Suc)
  have full: "pc (BabyBearProve all_calls_succeed 0 completion) = Returned None
    \<and> proved_with (BabyBearProve all_calls_succeed 0 completion) = Some (True, True)
    \<and> readKey (BabyBearProve all_calls_succeed 0 completion) = Ended
    \<and> compile (BabyBearProve all_calls_succeed 0 completion) = Ended"
    using BabyBearProve_joins_before_proving [of all_calls_succeed 0 "[]" None] ok
    by simp
  have joined: "loadLock (BabyBearProve all_calls_succeed 0 (take 13 completion)) = 0"
    using BabyBearProve_joins_before_proving
      [of all_calls_succeed 0 "take 13 completion" None] aj
    by simp
  have missing: "pc (BabyBearProve key_missing 0 completion) =
       Returned (Some ''fail to read reproving key: open ./data/vm_pk: no such file or directory'')
    \<and> proved_with (BabyBearProve key_missing 0 completion) = None"
    using BabyBearProve_joins_before_proving [of key_missing 0 "[]"
        "Some ''fail to read reproving key: open ./data/vm_pk: no such file or directory''"] km
    by (simp add: reaches_Prove_def)
  have blocked: "rank (pc (BabyBearProve all_calls_succeed 1 completion)) \<le> 8"
    using BabyBearProve_joins_before_proving [of all_calls_succeed 1 completion None] ok(1)
    by simp
  show ?thesis
    using full aj joined missing blocked by blast
qed

subsection \<open>Field selection\<close>

lemma main_env_ok:
  assumes "\<forall>k v. Setenv w k v = None"
  shows "main w fl =
   ((if field_flag fl = ''bb'' then
       (case BabyBearCmd (babybear_outcomes w) (cmd_flag fl) of
          (Some e, calls) \<Rightarrow> [RunBabyBearCmd (cmd_flag fl) calls,
                               Printf (''failed to babybear: '' @ e @ newline)]
        | (None, calls) \<Rightarrow> [RunBabyBearCmd (cmd_flag fl) calls])
     else if field_flag fl = ''kb'' then
       (case KoalaBearCmd_result w (cmd_flag fl) of
          Some e \<Rightarrow> [RunKoalaBearCmd (cmd_flag fl),
                      Printf (''failed to koalabear: '' @ e @ newline)]
        | None \<Rightarrow> [RunKoalaBearCmd (cmd_flag fl)])
     else [Printf (''field '' @ field_flag fl @ '' not supported'' @ newline)]),
    0)"
  unfolding main_def by (simp only: assms option.case if_cancel)

lemma main_unsupported_only_prints:
  assumes "field_flag fl \<noteq> ''bb''" "field_flag fl \<noteq> ''kb''"
  shows "list_all is_Printf (fst (main w fl))"
  unfolding main_def using assms by (simp split: option.split)

lemma main_exit_status: "snd (main w fl) = 0"
  by (simp add: main_def)

text \<open>
  C9, as amended. With a field selector other than bb and kb the run only prints: no
  command of the sdk is run, so no setup, solve or prove; and the process ends with exit
  status 0, as it does on every run. When the environment variables can be set, what it
  prints is exactly "field ... not supported". The selector bb routes to \<^verbatim>\<open>BabyBearCmd\<close>
  and kb to \<^verbatim>\<open>KoalaBearCmd\<close>, each followed by at most the printing of its error.
\<close>

theorem unsupported_field_prints_and_returns:
  "(field_flag fl \<noteq> ''bb'' \<and> field_flag fl \<noteq> ''kb'' \<longrightarrow>
      list_all is_Printf (fst (main w fl))
      \<and> ((\<forall>k v. Setenv w k v = None) \<longrightarrow>
           main w fl = ([Printf (''field '' @ field_flag fl @ '' not supported'' @ newline)], 0)))
   \<and> snd (main w fl) = 0
   \<and> ((\<forall>k v. Setenv w k v = None) \<and> field_flag fl = ''bb'' \<longrightarrow>
        hd (fst (main w fl)) = RunBabyBearCmd (cmd_flag fl)
                                  (snd (BabyBearCmd (babybear_outcomes w) (cmd_flag fl)))
        \<and> list_all is_Printf (tl (fst (main w fl))))
   \<and> ((\<forall>k v. Setenv w k v = None) \<and> field_flag fl = ''kb'' \<longrightarrow>
        hd (fst (main w fl)) = RunKoalaBearCmd (cmd_flag fl)
        \<and> list_all is_Printf (tl (fst (main w fl))))"
proof (intro conjI impI)
  assume "field_flag fl \<noteq> ''bb'' \<and> field_flag fl \<noteq> ''kb''"
  then show "list_all is_Printf (fst (main w fl))"
    using main_unsupported_only_prints by blast
next
  assume "field_flag fl \<noteq> ''bb'' \<and> field_flag fl \<noteq> ''kb''" "\<forall>k v. Setenv w k v = None"
  then show "main w fl = ([Printf (''field '' @ field_flag fl @ '' not supported'' @ newline)], 0)"
    by (simp add: main_env_ok)
next
  show "snd (main w fl) = 0"
    by (rule main_exit_status)
next
  assume a: "(\<forall>k v. Setenv w k v = None) \<and> field_flag fl = ''bb''"
  then show "hd (fst (main w fl)) = RunBabyBearCmd (cmd_flag fl)
                            (snd (BabyBearCmd (babybear_outcomes w) (cmd_flag fl)))"
    by (simp add: main_env_ok split: prod.split option.split)
  from a show "list_all is_Printf (tl (fst (main w fl)))"
    by (simp add: main_env_ok split: prod.split option.split)
next
  assume a: "(\<forall>k v. Setenv w k v = None) \<and> field_flag fl = ''kb''"
  then show "hd (fst (main w fl)) = RunKoalaBearCmd (cmd_flag fl)"
    by (simp add: main_env_ok split: option.split)
  from a show "list_all is_Printf (tl (fst (main w fl)))"
    by (simp add: main_env_ok split: option.split)
qed

theorem unsupported_field_prints_and_returns_witness:
  "main all_set
     \<lparr>cmd_flag = ''setup'', pkPath = ''./data/vm_pk'', ccsPath = ''./data/vm_ccs'',
      vkPath = ''./data/vm_vk'', useGroth16 = True,
      witnessFile = ''./data/groth16_witness.json'',
      constraintsFile = ''./data/constraints.json'', proofPath = ''./data/proof.data'',
      solidifyPath = ''./data/Groth16Verifier.sol'', field_flag = ''m31''\<rparr>
   = ([Printf (''field m31 not supported'' @ newline)], 0)"
proof -
  let ?fl = "\<lparr>cmd_flag = ''setup'', pkPath = ''./data/vm_pk'', ccsPath = ''./data/vm_ccs'',
      vkPath = ''./data/vm_vk'', useGroth16 = True,
      witnessFile = ''./data/groth16_witness.json'',
      constraintsFile = ''./data/constraints.json'', proofPath = ''./data/proof.data'',
      solidifyPath = ''./data/Groth16Verifier.sol'', field_flag = ''m31''\<rparr>"
  have a: "field_flag ?fl \<noteq> ''bb'' \<and> field_flag ?fl \<noteq> ''kb''"
    by simp
  have b: "\<forall>k v. Setenv all_set k v = None"
    by (simp add: all_set_def)
  show ?thesis
    using unsupported_field_prints_and_returns [of ?fl all_set] a b by simp
qed

text \<open>
  C9 as stated fails: with the selector babybear, which is neither bb nor kb, the program
  does not fail. It prints one line and ends with exit status 0, as a successful run does.
\<close>

theorem unsupported_field_exits_with_status_0:
  "main all_set
     \<lparr>cmd_flag = ''prove'', pkPath = ''./data/vm_pk'', ccsPath = ''./data/vm_ccs'',
      vkPath = ''./data/vm_vk'', useGroth16 = True,
      witnessFile = ''./data/groth16_witness.json'',
      constraintsFile = ''./data/constraints.json'', proofPath = ''./data/proof.data'',
      solidifyPath = ''./data/Groth16Verifier.sol'', field_flag = ''babybear''\<rparr>
   = ([Printf (''field babybear not supported'' @ newline)], 0)
   \<and> snd (main all_set
     \<lparr>cmd_flag = ''solve'', pkPath = ''./data/vm_pk'', ccsPath = ''./data/vm_ccs'',
      vkPath = ''./data/vm_vk'', useGroth16 = True,
      witnessFile = ''./data/groth16_witness.json'',
      constraintsFile = ''./data/constraints.json'', proofPath = ''./data/proof.data'',
      solidifyPath = ''./data/Groth16Verifier.sol'', field_flag = ''kb''\<rparr>) = 0"
  by (simp add: main_def all_set_def)

subsection \<open>Command dispatch\<close>

text \<open>
  C8. The claim: the setup command returns nil exactly when the setup step and the
  solidity export both succeed, and setupAndProve returns an error exactly when one of
  its steps fails. The code tests the last step of both commands with the comparison
  inverted (\<^verbatim>\<open>err == nil\<close>): on the run where every step succeeds, setup reports
  "fail to export solidity" and setupAndProve reports "fail to prove", each after having
  run all of its steps; and whatever the steps do, neither command returns nil.
\<close>

theorem BabyBearCmd_all_succeed_reports_failure:
  "BabyBearCmd all_succeed ''setup'' =
     (Some (''fail to export solidity: <nil>'' @ newline), [CallBabyBearSetup, CallExportSolidify])
   \<and> BabyBearCmd all_succeed ''setupAndProve'' =
     (Some (''fail to prove: <nil>'' @ newline),
      [CallBabyBearSetup, CallExportSolidify, CallBabyBearProve])
   \<and> (\<forall>w. fst (BabyBearCmd w ''setup'') \<noteq> None
          \<and> fst (BabyBearCmd w ''setupAndProve'') \<noteq> None)"
  by (simp add: BabyBearCmd_def all_succeed_def split: option.split)

end
